theory Spec2Isabelle
  imports Complex_Main
begin

section \<open>Data model\<close>

text \<open>
  The functions of \<^verbatim>\<open>src/eos/ideal_mhd.hpp\<close> work on values of type \<^verbatim>\<open>Real\<close>.
  They are modelled over the mathematical reals: rounding, overflow and the IEEE special
  values are outside the model, and the results below are statements about the
  arithmetic the code writes down, evaluated exactly.  The one exception is the
  non-relativistic round trip, a statement that depends on the rounding: for it the two
  non-relativistic converters are modelled a second time with every operation rounded
  (section \<open>Rounded arithmetic\<close>).  C++ \<^verbatim>\<open>int\<close> is modelled by
  \<^typ>\<open>int\<close>; the only integers of the file are loop counters bounded by 25 and
  the caller's running maximum, which is only compared and copied.
\<close>

text \<open>
  Modelled from the spec: the struct declarations \<^verbatim>\<open>MHDCons1D\<close>, \<^verbatim>\<open>HydCons1D\<close>,
  \<^verbatim>\<open>HydPrim1D\<close>, \<^verbatim>\<open>MHDPrim1D\<close> and \<^verbatim>\<open>EOS_Data\<close> are not part of the
  header.  The fields are the ones the header reads and writes, which are the ones the
  data model of the specification lists: density, momentum or velocity, energy and,
  for the MHD states, the cell-centred magnetic field; adiabatic index, density floor and
  pressure floor.
\<close>

record MHDCons1D =
  d :: real
  mx :: real
  my :: real
  mz :: real
  e :: real
  bx :: real
  "by" :: real
  bz :: real

record HydCons1D =
  d :: real
  mx :: real
  my :: real
  mz :: real
  e :: real

record HydPrim1D =
  d :: real
  vx :: real
  vy :: real
  vz :: real
  e :: real

record MHDPrim1D =
  d :: real
  vx :: real
  vy :: real
  vz :: real
  e :: real
  bx :: real
  "by" :: real
  bz :: real

record EOS_Data =
  gamma :: real
  dfloor :: real
  pfloor :: real

text \<open>
  Modelled from the spec: the macro \<^verbatim>\<open>SQR\<close> is defined outside the header; it is
  the square, "no special semantics beyond elementary arithmetic".
\<close>

definition SQR :: "real \<Rightarrow> real" where
  "SQR x = x * x"

section \<open>Non-relativistic MHD\<close>

text \<open>
  The conserved state \<open>u\<close>, the primitive state \<open>w\<close> and the two flags are passed to the
  converters by reference.  The models take their values at entry as arguments and
  return their values at exit in a record.
\<close>

record C2P_out =
  u_out :: MHDCons1D
  w_out :: HydPrim1D
  dfloor_used_out :: bool
  efloor_used_out :: bool

text \<open>\<^verbatim>\<open>SingleC2P_IdealMHD\<close>.  The bindings follow the statements of the source in
  order.\<close>

definition SingleC2P_IdealMHD ::
  "MHDCons1D \<Rightarrow> EOS_Data \<Rightarrow> HydPrim1D \<Rightarrow> bool \<Rightarrow> bool \<Rightarrow> C2P_out" where
  "SingleC2P_IdealMHD u eos w dfloor_used efloor_used =
    (let dfloor_' = dfloor eos;
         efloor = pfloor eos / (gamma eos - 1);
         (u, dfloor_used) =
           (if MHDCons1D.d u < dfloor_'
            then (u\<lparr>MHDCons1D.d := dfloor_'\<rparr>, True) else (u, dfloor_used));
         w = w\<lparr>HydPrim1D.d := MHDCons1D.d u\<rparr>;
         di = 1 / MHDCons1D.d u;
         w = w\<lparr>HydPrim1D.vx := di * MHDCons1D.mx u\<rparr>;
         w = w\<lparr>HydPrim1D.vy := di * MHDCons1D.my u\<rparr>;
         w = w\<lparr>HydPrim1D.vz := di * MHDCons1D.mz u\<rparr>;
         e_k = 0.5 * di * (SQR (MHDCons1D.mx u) + SQR (MHDCons1D.my u) + SQR (MHDCons1D.mz u));
         e_m = 0.5 * (SQR (MHDCons1D.bx u) + SQR (MHDCons1D.by u) + SQR (MHDCons1D.bz u));
         w = w\<lparr>HydPrim1D.e := MHDCons1D.e u - e_k - e_m\<rparr>
     in if HydPrim1D.e w < efloor
        then \<lparr>u_out = u\<lparr>MHDCons1D.e := efloor + e_k + e_m\<rparr>,
              w_out = w\<lparr>HydPrim1D.e := efloor\<rparr>,
              dfloor_used_out = dfloor_used, efloor_used_out = True\<rparr>
        else \<lparr>u_out = u, w_out = w,
              dfloor_used_out = dfloor_used, efloor_used_out = efloor_used\<rparr>)"

text \<open>\<^verbatim>\<open>SingleP2C_IdealMHD\<close>: the primitive state carries the magnetic field, the
  conserved state written through the reference does not.\<close>

definition SingleP2C_IdealMHD :: "MHDPrim1D \<Rightarrow> HydCons1D \<Rightarrow> HydCons1D" where
  "SingleP2C_IdealMHD w u =
    u\<lparr>HydCons1D.d := MHDPrim1D.d w,
      HydCons1D.mx := MHDPrim1D.d w * MHDPrim1D.vx w,
      HydCons1D.my := MHDPrim1D.d w * MHDPrim1D.vy w,
      HydCons1D.mz := MHDPrim1D.d w * MHDPrim1D.vz w,
      HydCons1D.e := MHDPrim1D.e w +
        0.5 * (MHDPrim1D.d w * (SQR (MHDPrim1D.vx w) + SQR (MHDPrim1D.vy w) + SQR (MHDPrim1D.vz w)) +
               (SQR (MHDPrim1D.bx w) + SQR (MHDPrim1D.by w) + SQR (MHDPrim1D.bz w)))\<rparr>"

section \<open>Master functions of the relativistic solver\<close>

definition Equation49 :: "real \<Rightarrow> real \<Rightarrow> real \<Rightarrow> real \<Rightarrow> real \<Rightarrow> real" where
  "Equation49 mu b2 rp r q =
    (let x = 1 / (1 + mu * b2);
         rbar = x * x * r * r + mu * x * (1 + x) * rp * rp
     in mu * sqrt (1 + rbar) - 1)"

definition Equation44 ::
  "real \<Rightarrow> real \<Rightarrow> real \<Rightarrow> real \<Rightarrow> real \<Rightarrow> real \<Rightarrow> EOS_Data \<Rightarrow> real" where
  "Equation44 mu b2 rpar r q u_d eos =
    (let x = 1 / (1 + mu * b2);
         rbar = x * x * r * r + mu * x * (1 + x) * rpar * rpar;
         qbar = q - 0.5 * b2 - 0.5 * (mu * mu * (b2 * rbar - rpar * rpar));
         z2 = mu * mu * rbar / \<bar>1 - SQR mu * rbar\<bar>;
         w = sqrt (1 + z2);
         wd = u_d / w;
         eps = w * (qbar - mu * rbar) + z2 / (w + 1);
         gm1 = gamma eos - 1;
         eps = max (pfloor eos / (wd * gm1)) eps;
         h = 1 + gamma eos * eps
     in mu - 1 / (h / w + rbar * mu))"

section \<open>The false-position loop\<close>

definition max_iterations :: int where
  "max_iterations = 25"

definition tol :: real where
  "tol = 1 / 10 ^ 12"

text \<open>
  The two \<^verbatim>\<open>for\<close> loops of \<^verbatim>\<open>SingleC2P_IdealSRMHD\<close> have the same text but for
  the master function they evaluate, which is the parameter \<open>func\<close> here.  The other
  arguments are the loop's variables at the loop test: the upper limit \<open>iterations\<close>, the
  counter \<open>iter\<close>, the bracket \<open>zm\<close>, \<open>zp\<close>, the function values \<open>fm\<close>, \<open>fp\<close> and the
  current point \<open>z\<close>.  The result is the value of \<open>iter\<close> and of \<open>z\<close> after the loop.
  The last argument and the last component of the result are not variables of the
  source: they count how often the loop body has been entered.
\<close>

function false_position ::
  "(real \<Rightarrow> real) \<Rightarrow> int \<Rightarrow> int \<Rightarrow> real \<Rightarrow> real \<Rightarrow> real \<Rightarrow> real \<Rightarrow> real \<Rightarrow> nat
    \<Rightarrow> int \<times> real \<times> nat" where
  "false_position func iterations iter zm zp fm fp z trips =
    (if iter < iterations then
       (let z = (zm * fp - zp * fm) / (fp - fm);
            f = func z
        in if \<bar>zm - zp\<bar> < tol \<or> \<bar>f\<bar> < tol then (iter, z, Suc trips)
           else if f * fp < 0
           then false_position func iterations (iter + 1) zp z fp f z (Suc trips)
           else false_position func iterations (iter + 1) zm z (0.5 * fm) f z (Suc trips))
     else (iter, z, trips))"
  by pat_completeness auto
termination
  by (relation "measure (\<lambda>(func, iterations, iter, zm, zp, fm, fp, z, trips).
        nat (iterations - iter))") auto

declare false_position.simps [simp del]


text \<open>
  One phase of the solver, as \<^verbatim>\<open>SingleC2P_IdealSRMHD\<close> writes it twice: the master
  function is evaluated at the two ends of the bracket, the loop limit is 25, or -1 when
  the bracket is within the tolerances, the current point starts at the midpoint, and
  the loop runs from \<open>iter = 0\<close>.
\<close>

definition false_position_phase :: "(real \<Rightarrow> real) \<Rightarrow> real \<Rightarrow> real \<Rightarrow> int \<times> real \<times> nat" where
  "false_position_phase func zm zp =
    (let fm = func zm;
         fp = func zp;
         iterations =
           (if \<bar>zm - zp\<bar> < tol \<or> \<bar>fm\<bar> + \<bar>fp\<bar> < 2 * tol then - 1 else max_iterations);
         z = 0.5 * (zm + zp)
     in false_position func iterations 0 zm zp fm fp z 0)"

section \<open>Relativistic MHD\<close>

text \<open>
  \<^verbatim>\<open>SingleC2P_IdealSRMHD\<close> is modelled in the order of its text: the two floors on
  the conserved state, the rescaling by the density, the two phases of the solver, and the
  primitives computed from the resulting \<open>mu\<close>.  The first and the last block are
  definitions of their own.
\<close>

definition SRMHD_floors ::
  "MHDCons1D \<Rightarrow> EOS_Data \<Rightarrow> real \<Rightarrow> bool \<Rightarrow> bool \<Rightarrow> MHDCons1D \<times> bool \<times> bool" where
  "SRMHD_floors u eos b2 dfloor_used efloor_used =
    (let gm1 = gamma eos - 1;
         (u, dfloor_used) =
           (if MHDCons1D.d u < dfloor eos
            then (u\<lparr>MHDCons1D.d := dfloor eos\<rparr>, True) else (u, dfloor_used));
         (u, efloor_used) =
           (if MHDCons1D.e u < pfloor eos / gm1 + 0.5 * b2
            then (u\<lparr>MHDCons1D.e := pfloor eos / gm1 + 0.5 * b2\<rparr>, True)
            else (u, efloor_used))
     in (u, dfloor_used, efloor_used))"

text \<open>
  The block after the loops.  \<open>u\<close> is the conserved state after the floors; \<open>b2\<close>, \<open>rpar\<close>
  and \<open>bx'\<close>, \<open>by'\<close>, \<open>bz'\<close> (the locals \<open>bx\<close>, \<open>by\<close>, \<open>bz\<close>) are the rescaled values; the result is the primitive state, the
  energy-floor flag and the Lorentz factor \<open>lor\<close>.
\<close>

definition SRMHD_primitives ::
  "MHDCons1D \<Rightarrow> EOS_Data \<Rightarrow> real \<Rightarrow> real \<Rightarrow> real \<Rightarrow> real \<Rightarrow> real \<Rightarrow> real \<Rightarrow> real \<Rightarrow> real
    \<Rightarrow> HydPrim1D \<Rightarrow> bool \<Rightarrow> HydPrim1D \<times> bool \<times> real" where
  "SRMHD_primitives u eos b2 rpar r q bx' by' bz' mu w efloor_used =
    (let gm1 = gamma eos - 1;
         x = 1 / (1 + mu * b2);
         rbar = x * x * r * r + mu * x * (1 + x) * rpar * rpar;
         qbar = q - 0.5 * b2 - 0.5 * (mu * mu * (b2 * rbar - rpar * rpar));
         z2 = mu * mu * rbar / \<bar>1 - SQR mu * rbar\<bar>;
         lor = sqrt (1 + z2);
         w = w\<lparr>HydPrim1D.d := MHDCons1D.d u / lor\<rparr>;
         eps = lor * (qbar - mu * rbar) + z2 / (lor + 1);
         epsmin = pfloor eos / (HydPrim1D.d w * gm1);
         (eps, efloor_used) = (if eps \<le> epsmin then (epsmin, True) else (eps, efloor_used));
         h = 1 + gamma eos * eps;
         conv = lor / (h * lor + b2);
         w = w\<lparr>HydPrim1D.vx := conv * (MHDCons1D.mx u / MHDCons1D.d u + bx' * rpar / (h * lor))\<rparr>;
         w = w\<lparr>HydPrim1D.vy := conv * (MHDCons1D.my u / MHDCons1D.d u + by' * rpar / (h * lor))\<rparr>;
         w = w\<lparr>HydPrim1D.vz := conv * (MHDCons1D.mz u / MHDCons1D.d u + bz' * rpar / (h * lor))\<rparr>;
         w = w\<lparr>HydPrim1D.e := HydPrim1D.d w * eps\<rparr>
     in (w, efloor_used, lor))"

text \<open>
  What \<^verbatim>\<open>SingleC2P_IdealSRMHD\<close> leaves in its reference parameters (the four fields
  above and the running maximum \<open>max_iter\<close>), together with the local variables that the
  properties below speak about: \<open>mu_out\<close> is the root variable \<open>mu\<close> after the second
  loop, \<open>lor_out\<close> the Lorentz factor \<open>lor\<close> computed from it, \<open>iter1\<close> and \<open>iter2\<close> are
  the loop counters after the two loops, and \<open>trips1\<close> and \<open>trips2\<close> the numbers of
  executions of the two loop bodies.
\<close>

record SRMHD_out = C2P_out +
  max_iter_out :: int
  mu_out :: real
  lor_out :: real
  iter1 :: int
  trips1 :: nat
  iter2 :: int
  trips2 :: nat

definition SingleC2P_IdealSRMHD ::
  "MHDCons1D \<Rightarrow> EOS_Data \<Rightarrow> real \<Rightarrow> real \<Rightarrow> real \<Rightarrow> HydPrim1D \<Rightarrow> bool \<Rightarrow> bool \<Rightarrow> int
    \<Rightarrow> SRMHD_out" where
  "SingleC2P_IdealSRMHD u eos s2 b2 rpar w dfloor_used efloor_used max_iter =
    (let (u, dfloor_used, efloor_used) = SRMHD_floors u eos b2 dfloor_used efloor_used;
         q = MHDCons1D.e u / MHDCons1D.d u;
         r = sqrt s2 / MHDCons1D.d u;
         isqrtd = 1 / sqrt (MHDCons1D.d u);
         bx = MHDCons1D.bx u * isqrtd;
         by = MHDCons1D.by u * isqrtd;
         bz = MHDCons1D.bz u * isqrtd;
         b2 = b2 / MHDCons1D.d u;
         rpar = rpar * isqrtd;
         (it1, z, n1) = false_position_phase (\<lambda>z. Equation49 z b2 rpar r q) 0 1;
         max_iter = (if it1 > max_iter then it1 else max_iter);
         (it2, z, n2) =
           false_position_phase (\<lambda>z. Equation44 z b2 rpar r q (MHDCons1D.d u) eos) 0 z;
         max_iter = (if it2 > max_iter then it2 else max_iter);
         (w, efloor_used, lor) = SRMHD_primitives u eos b2 rpar r q bx by bz z w efloor_used
     in \<lparr>u_out = u, w_out = w, dfloor_used_out = dfloor_used, efloor_used_out = efloor_used,
         max_iter_out = max_iter, mu_out = z, lor_out = lor,
         iter1 = it1, trips1 = n1, iter2 = it2, trips2 = n2\<rparr>)"

section \<open>Quantities and conditions the properties refer to\<close>

text \<open>
  The kinetic and the magnetic energy density of a conserved state, as
  \<^verbatim>\<open>SingleC2P_IdealMHD\<close> computes them in its locals \<open>e_k\<close> (with \<open>di = 1/u.d\<close>) and
  \<open>e_m\<close>.
\<close>

definition kinetic_energy :: "MHDCons1D \<Rightarrow> real" where
  "kinetic_energy u =
    0.5 * (1 / MHDCons1D.d u) *
      (SQR (MHDCons1D.mx u) + SQR (MHDCons1D.my u) + SQR (MHDCons1D.mz u))"

definition magnetic_energy :: "MHDCons1D \<Rightarrow> real" where
  "magnetic_energy u =
    0.5 * (SQR (MHDCons1D.bx u) + SQR (MHDCons1D.by u) + SQR (MHDCons1D.bz u))"

text \<open>
  The conditions of the three \<^verbatim>\<open>if\<close> statements that write to the conserved state, as
  predicates of the state at entry: the density floor of both converters, the energy
  floor of \<^verbatim>\<open>SingleC2P_IdealMHD\<close> (tested after the density floor has been applied),
  and the energy floor at the entry of \<^verbatim>\<open>SingleC2P_IdealSRMHD\<close>.
\<close>

definition dfloor_triggers :: "MHDCons1D \<Rightarrow> EOS_Data \<Rightarrow> bool" where
  "dfloor_triggers u eos = (MHDCons1D.d u < dfloor eos)"

definition efloor_triggers_MHD :: "MHDCons1D \<Rightarrow> EOS_Data \<Rightarrow> bool" where
  "efloor_triggers_MHD u eos =
    (let u = (if MHDCons1D.d u < dfloor eos then u\<lparr>MHDCons1D.d := dfloor eos\<rparr> else u)
     in MHDCons1D.e u - kinetic_energy u - magnetic_energy u < pfloor eos / (gamma eos - 1))"

definition efloor_triggers_SRMHD :: "MHDCons1D \<Rightarrow> EOS_Data \<Rightarrow> real \<Rightarrow> bool" where
  "efloor_triggers_SRMHD u eos b2 =
    (MHDCons1D.e u < pfloor eos / (gamma eos - 1) + 0.5 * b2)"

text \<open>
  The primitive state that \<^verbatim>\<open>SingleP2C_IdealMHD\<close> takes carries the magnetic field,
  the one that \<^verbatim>\<open>SingleC2P_IdealMHD\<close> returns does not: going there and back, the
  caller puts the cell-centred field of the conserved state beside the returned
  primitives.
\<close>

definition with_field :: "HydPrim1D \<Rightarrow> MHDCons1D \<Rightarrow> MHDPrim1D" where
  "with_field w u =
    \<lparr>MHDPrim1D.d = HydPrim1D.d w, vx = HydPrim1D.vx w, vy = HydPrim1D.vy w,
     vz = HydPrim1D.vz w, e = HydPrim1D.e w,
     bx = MHDCons1D.bx u, by = MHDCons1D.by u, bz = MHDCons1D.bz u\<rparr>"

text \<open>
  The values \<open>fm\<close> and \<open>fp\<close> of the bracket function at the ends \<open>zm = 0\<close> and \<open>zp = 1\<close> of
  the initial bracket, as \<^verbatim>\<open>SingleC2P_IdealSRMHD\<close> computes them from a conserved
  state after the floors and from the scalars \<open>s2\<close>, \<open>b2\<close> and \<open>rpar\<close>.
\<close>

definition bracket_values :: "MHDCons1D \<Rightarrow> real \<Rightarrow> real \<Rightarrow> real \<Rightarrow> real \<times> real" where
  "bracket_values u s2 b2 rpar =
    (let q = MHDCons1D.e u / MHDCons1D.d u;
         r = sqrt s2 / MHDCons1D.d u;
         isqrtd = 1 / sqrt (MHDCons1D.d u);
         b2 = b2 / MHDCons1D.d u;
         rpar = rpar * isqrtd;
         zm = 0;
         zp = 1;
         fm = Equation49 zm b2 rpar r q;
         fp = Equation49 zp b2 rpar r q
     in (fm, fp))"

text \<open>
  The locals \<open>rbar\<close>, \<open>w\<close> and \<open>eps\<close> (before its floor) of \<open>Equation44\<close> as functions of its
  arguments.
\<close>

definition Equation44_rbar :: "real \<Rightarrow> real \<Rightarrow> real \<Rightarrow> real \<Rightarrow> real" where
  "Equation44_rbar mu b2 rpar r =
    (let x = 1 / (1 + mu * b2) in x * x * r * r + mu * x * (1 + x) * rpar * rpar)"

definition Equation44_w :: "real \<Rightarrow> real \<Rightarrow> real \<Rightarrow> real \<Rightarrow> real" where
  "Equation44_w mu b2 rpar r =
    (let rbar = Equation44_rbar mu b2 rpar r;
         z2 = mu * mu * rbar / \<bar>1 - SQR mu * rbar\<bar>
     in sqrt (1 + z2))"

definition Equation44_eps :: "real \<Rightarrow> real \<Rightarrow> real \<Rightarrow> real \<Rightarrow> real \<Rightarrow> real" where
  "Equation44_eps mu b2 rpar r q =
    (let rbar = Equation44_rbar mu b2 rpar r;
         qbar = q - 0.5 * b2 - 0.5 * (mu * mu * (b2 * rbar - rpar * rpar));
         z2 = mu * mu * rbar / \<bar>1 - SQR mu * rbar\<bar>;
         w = sqrt (1 + z2)
     in w * (qbar - mu * rbar) + z2 / (w + 1))"

text \<open>
  The bracket of the second phase: its upper end \<open>zp\<close>, which is the point \<open>z\<close> that the
  first phase returns, and the values \<open>fm\<close> and \<open>fp\<close> of the master function at 0 and at
  \<open>zp\<close>, as \<^verbatim>\<open>SingleC2P_IdealSRMHD\<close> computes them from a conserved state after the
  floors.
\<close>

definition root_bracket_values ::
  "MHDCons1D \<Rightarrow> EOS_Data \<Rightarrow> real \<Rightarrow> real \<Rightarrow> real \<Rightarrow> real \<times> real \<times> real" where
  "root_bracket_values u eos s2 b2 rpar =
    (let q = MHDCons1D.e u / MHDCons1D.d u;
         r = sqrt s2 / MHDCons1D.d u;
         isqrtd = 1 / sqrt (MHDCons1D.d u);
         b2 = b2 / MHDCons1D.d u;
         rpar = rpar * isqrtd;
         (it1, z, n1) = false_position_phase (\<lambda>z. Equation49 z b2 rpar r q) 0 1;
         zm = 0;
         zp = z;
         fm = Equation44 zm b2 rpar r q (MHDCons1D.d u) eos;
         fp = Equation44 zp b2 rpar r q (MHDCons1D.d u) eos
     in (zp, fm, fp))"

text \<open>
  The velocity components of a relativistic primitive state are the spatial components of
  the four-velocity: \<^verbatim>\<open>SingleP2C_IdealSRMHD\<close> computes the Lorentz factor from them as
  \<open>u0 = sqrt(1 + vx^2 + vy^2 + vz^2)\<close>.  The speed, in units of the speed of light, is
  their norm divided by that factor.
\<close>

definition lorentz_factor :: "HydPrim1D \<Rightarrow> real" where
  "lorentz_factor w = sqrt (1 + SQR (HydPrim1D.vx w) + SQR (HydPrim1D.vy w) + SQR (HydPrim1D.vz w))"

definition speed :: "HydPrim1D \<Rightarrow> real" where
  "speed w =
    sqrt (SQR (HydPrim1D.vx w) + SQR (HydPrim1D.vy w) + SQR (HydPrim1D.vz w)) / lorentz_factor w"

section \<open>Concrete states\<close>

text \<open>An ideal gas with adiabatic index 5/3 and small floors; a primitive state to be
  overwritten.\<close>

definition eos_small :: EOS_Data where
  "eos_small = \<lparr>gamma = 5 / 3, dfloor = 1 / 10 ^ 8, pfloor = 1 / 10 ^ 10\<rparr>"

definition w_init :: HydPrim1D where
  "w_init = \<lparr>HydPrim1D.d = 0, vx = 0, vy = 0, vz = 0, e = 0\<rparr>"

text \<open>The sub-floor density of the specification's scenario, and a magnetised state well
  above both floors.\<close>

definition u_subfloor :: MHDCons1D where
  "u_subfloor =
    \<lparr>MHDCons1D.d = - 1, mx = 0, my = 0, mz = 0, e = 1, bx = 0, by = 0, bz = 0\<rparr>"

definition u_field :: MHDCons1D where
  "u_field =
    \<lparr>MHDCons1D.d = 2, mx = 1, my = 0, mz = 0, e = 10, bx = 1, by = 0, bz = 0\<rparr>"

text \<open>The magnetised state with a total energy below its kinetic and magnetic energy.\<close>

definition u_lowe :: MHDCons1D where
  "u_lowe =
    \<lparr>MHDCons1D.d = 2, mx = 1, my = 0, mz = 0, e = 0, bx = 1, by = 0, bz = 0\<rparr>"

text \<open>
  A cold (pressureless) unmagnetised fluid moving with Lorentz factor 5/4: conserved
  density 1, momentum 3/4 and energy (stored as \<open>E - D\<close>) 1/4, for a density floor equal
  to its conserved density and no pressure floor; and the same state with an energy
  below the entry-time floor.
\<close>

definition eos_cold :: EOS_Data where
  "eos_cold = \<lparr>gamma = 5 / 3, dfloor = 1, pfloor = 0\<rparr>"

definition u_cold :: MHDCons1D where
  "u_cold =
    \<lparr>MHDCons1D.d = 1, mx = 3 / 4, my = 0, mz = 0, e = 1 / 4, bx = 0, by = 0, bz = 0\<rparr>"

definition u_cold_low :: MHDCons1D where
  "u_cold_low =
    \<lparr>MHDCons1D.d = 1, mx = 3 / 4, my = 0, mz = 0, e = - 1, bx = 0, by = 0, bz = 0\<rparr>"

text \<open>A conserved state to be overwritten by \<^verbatim>\<open>SingleP2C_IdealMHD\<close>.\<close>

definition c_init :: HydCons1D where
  "c_init = \<lparr>HydCons1D.d = 0, mx = 0, my = 0, mz = 0, e = 0\<rparr>"

text \<open>The static fluid of the specification's scenario, with conserved energy \<open>e0\<close>.\<close>

definition static_fluid :: "real \<Rightarrow> MHDCons1D" where
  "static_fluid e0 =
    \<lparr>MHDCons1D.d = 1, mx = 0, my = 0, mz = 0, e = e0, bx = 0, by = 0, bz = 0\<rparr>"

section \<open>Rounded arithmetic\<close>

text \<open>
  The statement about going to the primitive state and back depends on the rounding of
  the arithmetic.  For it the two non-relativistic converters are modelled a second
  time, with the result of every arithmetic operation passed through a rounding function
  \<open>rnd\<close>.  With the identity for \<open>rnd\<close> this is the exact model above; with
  \<open>double_round\<close> it is the arithmetic of the C++ type \<^verbatim>\<open>double\<close> (IEEE 754
  binary64 in the default rounding mode, round to nearest, ties to even), for which
  \<^verbatim>\<open>Real\<close> stands in a double-precision build.

  \<open>rne y\<close> is the integer nearest to \<open>y\<close>, the even one of the two when \<open>y\<close> lies half
  way.  \<open>double_round x\<close> is the nearest number with a significand of 53 bits: for
  \<open>2^e \<le> |x| < 2^(e+1)\<close> these numbers are the integer multiples of \<open>ulp = 2^(e-52)\<close>, and
  \<open>|x|/ulp\<close> is rounded to an integer by \<open>rne\<close>.  The exponent is not bounded: overflow, the
  subnormal numbers and the special values are outside the model.
\<close>

definition rne :: "real \<Rightarrow> int" where
  "rne y =
    (let f = \<lfloor>y\<rfloor>;
         r = y - of_int f
     in if r < 1 / 2 then f else if 1 / 2 < r then f + 1 else if even f then f else f + 1)"

definition double_round :: "real \<Rightarrow> real" where
  "double_round x =
    (if x = 0 then 0
     else (let e = \<lfloor>log 2 \<bar>x\<bar>\<rfloor>;
               ulp = 2 powr (of_int e - 52)
           in sgn x * of_int (rne (\<bar>x\<bar> / ulp)) * ulp))"

text \<open>
  \<^verbatim>\<open>SingleC2P_IdealMHD\<close> and \<^verbatim>\<open>SingleP2C_IdealMHD\<close> with rounding.  Every operator
  of the source is one rounding, in the order in which C++ evaluates the expression:
  \<^verbatim>\<open>0.5*di*(...)\<close> is \<open>(0.5*di)*(...)\<close>, a sum of three squares is
  \<open>(SQR a + SQR b) + SQR c\<close>, \<^verbatim>\<open>u.e - e_k - e_m\<close> is \<open>(u.e - e_k) - e_m\<close>,
  \<^verbatim>\<open>efloor + e_k + e_m\<close> is \<open>(efloor + e_k) + e_m\<close>, and \<^verbatim>\<open>SQR(x)\<close> is the product
  \<open>x*x\<close>.  A product and a sum are not contracted into one operation.  The copy
  \<^verbatim>\<open>w.d = u.d\<close>, the stores and the comparisons do not round; the fields of the
  arguments are taken as they are.
\<close>

definition SingleC2P_IdealMHD_fl ::
  "(real \<Rightarrow> real) \<Rightarrow> MHDCons1D \<Rightarrow> EOS_Data \<Rightarrow> HydPrim1D \<Rightarrow> bool \<Rightarrow> bool \<Rightarrow> C2P_out" where
  "SingleC2P_IdealMHD_fl rnd u eos w dfloor_used efloor_used =
    (let dfloor_' = dfloor eos;
         efloor = rnd (pfloor eos / rnd (gamma eos - 1));
         (u, dfloor_used) =
           (if MHDCons1D.d u < dfloor_'
            then (u\<lparr>MHDCons1D.d := dfloor_'\<rparr>, True) else (u, dfloor_used));
         w = w\<lparr>HydPrim1D.d := MHDCons1D.d u\<rparr>;
         di = rnd (1 / MHDCons1D.d u);
         w = w\<lparr>HydPrim1D.vx := rnd (di * MHDCons1D.mx u)\<rparr>;
         w = w\<lparr>HydPrim1D.vy := rnd (di * MHDCons1D.my u)\<rparr>;
         w = w\<lparr>HydPrim1D.vz := rnd (di * MHDCons1D.mz u)\<rparr>;
         e_k = rnd (rnd (0.5 * di) *
                 rnd (rnd (rnd (SQR (MHDCons1D.mx u)) + rnd (SQR (MHDCons1D.my u))) +
                      rnd (SQR (MHDCons1D.mz u))));
         e_m = rnd (0.5 *
                 rnd (rnd (rnd (SQR (MHDCons1D.bx u)) + rnd (SQR (MHDCons1D.by u))) +
                      rnd (SQR (MHDCons1D.bz u))));
         w = w\<lparr>HydPrim1D.e := rnd (rnd (MHDCons1D.e u - e_k) - e_m)\<rparr>
     in if HydPrim1D.e w < efloor
        then \<lparr>u_out = u\<lparr>MHDCons1D.e := rnd (rnd (efloor + e_k) + e_m)\<rparr>,
              w_out = w\<lparr>HydPrim1D.e := efloor\<rparr>,
              dfloor_used_out = dfloor_used, efloor_used_out = True\<rparr>
        else \<lparr>u_out = u, w_out = w,
              dfloor_used_out = dfloor_used, efloor_used_out = efloor_used\<rparr>)"

definition SingleP2C_IdealMHD_fl :: "(real \<Rightarrow> real) \<Rightarrow> MHDPrim1D \<Rightarrow> HydCons1D \<Rightarrow> HydCons1D" where
  "SingleP2C_IdealMHD_fl rnd w u =
    u\<lparr>HydCons1D.d := MHDPrim1D.d w,
      HydCons1D.mx := rnd (MHDPrim1D.d w * MHDPrim1D.vx w),
      HydCons1D.my := rnd (MHDPrim1D.d w * MHDPrim1D.vy w),
      HydCons1D.mz := rnd (MHDPrim1D.d w * MHDPrim1D.vz w),
      HydCons1D.e := rnd (MHDPrim1D.e w +
        rnd (0.5 *
          rnd (rnd (MHDPrim1D.d w *
                 rnd (rnd (rnd (SQR (MHDPrim1D.vx w)) + rnd (SQR (MHDPrim1D.vy w))) +
                      rnd (SQR (MHDPrim1D.vz w)))) +
               rnd (rnd (rnd (SQR (MHDPrim1D.bx w)) + rnd (SQR (MHDPrim1D.by w))) +
                    rnd (SQR (MHDPrim1D.bz w))))))\<rparr>"

text \<open>
  Going there and back: \<^verbatim>\<open>SingleC2P_IdealMHD\<close> is called with both flags clear, and
  \<^verbatim>\<open>SingleP2C_IdealMHD\<close> with the returned primitives beside the magnetic field of
  the conserved state.  The flags returned by the first call tell whether a floor was
  triggered.
\<close>

definition round_trip_fl ::
  "(real \<Rightarrow> real) \<Rightarrow> MHDCons1D \<Rightarrow> EOS_Data \<Rightarrow> HydPrim1D \<Rightarrow> HydCons1D \<Rightarrow> HydCons1D" where
  "round_trip_fl rnd u eos w c =
    SingleP2C_IdealMHD_fl rnd
      (with_field (w_out (SingleC2P_IdealMHD_fl rnd u eos w False False)) u) c"

text \<open>
  \<open>accurate eps n x y\<close>: the computed \<open>x\<close> is the exact \<open>y\<close> up to \<open>n\<close> roundings of relative
  error \<open>eps\<close>.  \<open>energy_rounding_bound eps\<close> is the bound on the error of the energy after
  the round trip, relative to the sum of the magnitudes of the total, the kinetic and the
  magnetic energy; it is \<open>23 eps\<close> to first order.
\<close>

definition accurate :: "real \<Rightarrow> nat \<Rightarrow> real \<Rightarrow> real \<Rightarrow> bool" where
  "accurate eps n x y = (\<bar>x - y\<bar> \<le> ((1 + eps) ^ n - 1) * \<bar>y\<bar>)"

definition energy_rounding_bound :: "real \<Rightarrow> real" where
  "energy_rounding_bound eps =
    (1 + eps) * (eps * (1 + eps) ^ 7 + eps * (1 + eps) ^ 6 + 2 * ((1 + eps) ^ 10 - 1)) + eps"

text \<open>
  An ideal gas and a conserved state whose fields are binary64 numbers: adiabatic index
  3/2, floors \<open>2^-30\<close> and \<open>2^-41\<close>; density 3, momentum (7, 0, 0), energy 10, no field.
\<close>

definition eos_dyadic :: EOS_Data where
  "eos_dyadic = \<lparr>gamma = 3 / 2, dfloor = 1 / 2 ^ 30, pfloor = 1 / 2 ^ 41\<rparr>"

definition u_thirds :: MHDCons1D where
  "u_thirds =
    \<lparr>MHDCons1D.d = 3, mx = 7, my = 0, mz = 0, e = 10, bx = 0, by = 0, bz = 0\<rparr>"

section \<open>Properties of the floors\<close>

lemma srmhd_u_out:
  "u_out (SingleC2P_IdealSRMHD u eos s2 b2 rpar w df ef mi) =
    fst (SRMHD_floors u eos b2 df ef)"
  by (simp add: SingleC2P_IdealSRMHD_def Let_def split_def)

lemma srmhd_dfloor_used_out:
  "dfloor_used_out (SingleC2P_IdealSRMHD u eos s2 b2 rpar w df ef mi) =
    fst (snd (SRMHD_floors u eos b2 df ef))"
  by (simp add: SingleC2P_IdealSRMHD_def Let_def split_def)

lemma SRMHD_floors_eq:
  "SRMHD_floors u eos b2 df ef =
    ((if MHDCons1D.d u < dfloor eos then u\<lparr>MHDCons1D.d := dfloor eos\<rparr> else u)
       \<lparr>MHDCons1D.e := (if MHDCons1D.e u < pfloor eos / (gamma eos - 1) + 0.5 * b2
                         then pfloor eos / (gamma eos - 1) + 0.5 * b2 else MHDCons1D.e u)\<rparr>,
     df \<or> MHDCons1D.d u < dfloor eos,
     ef \<or> MHDCons1D.e u < pfloor eos / (gamma eos - 1) + 0.5 * b2)"
  by (simp add: SRMHD_floors_def Let_def)

text \<open>
  C8.  When the density at entry is below \<open>dfloor\<close>, both converters leave exactly \<open>dfloor\<close>
  in the conserved density and set the density-floor flag, and the non-relativistic
  converter returns \<open>dfloor\<close> as the primitive density.  When the density at entry is
  at least \<open>dfloor\<close>, the conserved density and the flag keep their values.
\<close>

theorem density_floor:
  "(MHDCons1D.d u < dfloor eos \<longrightarrow>
      MHDCons1D.d (u_out (SingleC2P_IdealMHD u eos w df ef)) = dfloor eos \<and>
      dfloor_used_out (SingleC2P_IdealMHD u eos w df ef) \<and>
      HydPrim1D.d (w_out (SingleC2P_IdealMHD u eos w df ef)) = dfloor eos \<and>
      MHDCons1D.d (u_out (SingleC2P_IdealSRMHD u eos s2 b2 rpar w df ef mi)) = dfloor eos \<and>
      dfloor_used_out (SingleC2P_IdealSRMHD u eos s2 b2 rpar w df ef mi)) \<and>
   (dfloor eos \<le> MHDCons1D.d u \<longrightarrow>
      MHDCons1D.d (u_out (SingleC2P_IdealMHD u eos w df ef)) = MHDCons1D.d u \<and>
      dfloor_used_out (SingleC2P_IdealMHD u eos w df ef) = df \<and>
      MHDCons1D.d (u_out (SingleC2P_IdealSRMHD u eos s2 b2 rpar w df ef mi)) = MHDCons1D.d u \<and>
      dfloor_used_out (SingleC2P_IdealSRMHD u eos s2 b2 rpar w df ef mi) = df)"
  by (simp add: SingleC2P_IdealMHD_def srmhd_u_out srmhd_dfloor_used_out SRMHD_floors_eq
      Let_def split_def)

text \<open>The scenario \<open>d = -1\<close>, \<open>dfloor = 1e-8\<close>, and a state above the floor.\<close>

theorem density_floor_witness:
  "MHDCons1D.d (u_out (SingleC2P_IdealMHD u_subfloor eos_small w_init False False)) = 1 / 10 ^ 8 \<and>
   dfloor_used_out (SingleC2P_IdealMHD u_subfloor eos_small w_init False False) \<and>
   HydPrim1D.d (w_out (SingleC2P_IdealMHD u_subfloor eos_small w_init False False)) = 1 / 10 ^ 8 \<and>
   MHDCons1D.d (u_out (SingleC2P_IdealSRMHD u_subfloor eos_small 0 0 0 w_init False False 0))
     = 1 / 10 ^ 8 \<and>
   dfloor_used_out (SingleC2P_IdealSRMHD u_subfloor eos_small 0 0 0 w_init False False 0) \<and>
   MHDCons1D.d (u_out (SingleC2P_IdealMHD u_field eos_small w_init False False)) = 2 \<and>
   \<not> dfloor_used_out (SingleC2P_IdealMHD u_field eos_small w_init False False) \<and>
   MHDCons1D.d (u_out (SingleC2P_IdealSRMHD u_field eos_small 1 1 (1 / 2) w_init False False 0))
     = 2 \<and>
   \<not> dfloor_used_out (SingleC2P_IdealSRMHD u_field eos_small 1 1 (1 / 2) w_init False False 0)"
  using density_floor [of u_subfloor eos_small w_init False False 0 0 0 0]
    density_floor [of u_field eos_small w_init False False 1 1 "1 / 2" 0]
  by (simp add: u_subfloor_def u_field_def eos_small_def)

lemma mhd_u_out:
  "u_out (SingleC2P_IdealMHD u eos w df ef) =
    (let u1 = (if MHDCons1D.d u < dfloor eos then u\<lparr>MHDCons1D.d := dfloor eos\<rparr> else u)
     in if MHDCons1D.e u1 - kinetic_energy u1 - magnetic_energy u1 < pfloor eos / (gamma eos - 1)
        then u1\<lparr>MHDCons1D.e := pfloor eos / (gamma eos - 1) + kinetic_energy u1 + magnetic_energy u1\<rparr>
        else u1)"
  by (simp add: SingleC2P_IdealMHD_def kinetic_energy_def magnetic_energy_def Let_def)

text \<open>
  C10.  Neither converter changes the momentum or the magnetic field of the conserved
  state.  The conserved density at exit differs from the one at entry only if the density
  floor triggers, and the conserved energy only if the energy floor of
  \<^verbatim>\<open>SingleC2P_IdealMHD\<close>, respectively the energy floor at the entry of
  \<^verbatim>\<open>SingleC2P_IdealSRMHD\<close>, triggers.  When neither triggers, the conserved state at
  exit is the conserved state at entry.
\<close>

theorem conserved_state_frame:
  "MHDCons1D.mx (u_out (SingleC2P_IdealMHD u eos w df ef)) = MHDCons1D.mx u \<and>
   MHDCons1D.my (u_out (SingleC2P_IdealMHD u eos w df ef)) = MHDCons1D.my u \<and>
   MHDCons1D.mz (u_out (SingleC2P_IdealMHD u eos w df ef)) = MHDCons1D.mz u \<and>
   MHDCons1D.bx (u_out (SingleC2P_IdealMHD u eos w df ef)) = MHDCons1D.bx u \<and>
   MHDCons1D.by (u_out (SingleC2P_IdealMHD u eos w df ef)) = MHDCons1D.by u \<and>
   MHDCons1D.bz (u_out (SingleC2P_IdealMHD u eos w df ef)) = MHDCons1D.bz u \<and>
   (MHDCons1D.d (u_out (SingleC2P_IdealMHD u eos w df ef)) \<noteq> MHDCons1D.d u
      \<longrightarrow> dfloor_triggers u eos) \<and>
   (MHDCons1D.e (u_out (SingleC2P_IdealMHD u eos w df ef)) \<noteq> MHDCons1D.e u
      \<longrightarrow> efloor_triggers_MHD u eos) \<and>
   (\<not> dfloor_triggers u eos \<and> \<not> efloor_triggers_MHD u eos
      \<longrightarrow> u_out (SingleC2P_IdealMHD u eos w df ef) = u) \<and>
   MHDCons1D.mx (u_out (SingleC2P_IdealSRMHD u eos s2 b2 rpar w df ef mi)) = MHDCons1D.mx u \<and>
   MHDCons1D.my (u_out (SingleC2P_IdealSRMHD u eos s2 b2 rpar w df ef mi)) = MHDCons1D.my u \<and>
   MHDCons1D.mz (u_out (SingleC2P_IdealSRMHD u eos s2 b2 rpar w df ef mi)) = MHDCons1D.mz u \<and>
   MHDCons1D.bx (u_out (SingleC2P_IdealSRMHD u eos s2 b2 rpar w df ef mi)) = MHDCons1D.bx u \<and>
   MHDCons1D.by (u_out (SingleC2P_IdealSRMHD u eos s2 b2 rpar w df ef mi)) = MHDCons1D.by u \<and>
   MHDCons1D.bz (u_out (SingleC2P_IdealSRMHD u eos s2 b2 rpar w df ef mi)) = MHDCons1D.bz u \<and>
   (MHDCons1D.d (u_out (SingleC2P_IdealSRMHD u eos s2 b2 rpar w df ef mi)) \<noteq> MHDCons1D.d u
      \<longrightarrow> dfloor_triggers u eos) \<and>
   (MHDCons1D.e (u_out (SingleC2P_IdealSRMHD u eos s2 b2 rpar w df ef mi)) \<noteq> MHDCons1D.e u
      \<longrightarrow> efloor_triggers_SRMHD u eos b2) \<and>
   (\<not> dfloor_triggers u eos \<and> \<not> efloor_triggers_SRMHD u eos b2
      \<longrightarrow> u_out (SingleC2P_IdealSRMHD u eos s2 b2 rpar w df ef mi) = u)"
  by (simp add: mhd_u_out srmhd_u_out SRMHD_floors_eq dfloor_triggers_def
      efloor_triggers_MHD_def efloor_triggers_SRMHD_def Let_def)

text \<open>A state above the floors is returned as it is; a sub-floor density and a sub-floor
  energy are overwritten.\<close>

theorem conserved_state_frame_witness:
  "u_out (SingleC2P_IdealMHD u_field eos_small w_init False False) = u_field \<and>
   u_out (SingleC2P_IdealSRMHD u_field eos_small 1 1 (1 / 2) w_init False False 0) = u_field \<and>
   MHDCons1D.d (u_out (SingleC2P_IdealMHD u_subfloor eos_small w_init False False))
     \<noteq> MHDCons1D.d u_subfloor \<and>
   dfloor_triggers u_subfloor eos_small \<and>
   MHDCons1D.d (u_out (SingleC2P_IdealSRMHD u_subfloor eos_small 0 0 0 w_init False False 0))
     \<noteq> MHDCons1D.d u_subfloor \<and>
   MHDCons1D.e (u_out (SingleC2P_IdealMHD u_lowe eos_small w_init False False))
     \<noteq> MHDCons1D.e u_lowe \<and>
   efloor_triggers_MHD u_lowe eos_small \<and>
   MHDCons1D.e (u_out (SingleC2P_IdealSRMHD u_lowe eos_small 1 1 (1 / 2) w_init False False 0))
     \<noteq> MHDCons1D.e u_lowe \<and>
   efloor_triggers_SRMHD u_lowe eos_small 1"
  using conserved_state_frame [of u_field eos_small w_init False False 1 1 "1 / 2" 0]
    conserved_state_frame [of u_subfloor eos_small w_init False False 0 0 0 0]
    conserved_state_frame [of u_lowe eos_small w_init False False 1 1 "1 / 2" 0]
  by (simp add: mhd_u_out srmhd_u_out SRMHD_floors_eq Let_def  dfloor_triggers_def
      efloor_triggers_MHD_def efloor_triggers_SRMHD_def kinetic_energy_def magnetic_energy_def SQR_def
      u_subfloor_def u_field_def u_lowe_def eos_small_def)

lemma SRMHD_primitives_d:
  "HydPrim1D.d (fst (SRMHD_primitives u eos b2 rpar r q bx' by' bz' mu w ef)) =
    MHDCons1D.d u / snd (snd (SRMHD_primitives u eos b2 rpar r q bx' by' bz' mu w ef))"
  by (simp add: SRMHD_primitives_def Let_def split_def)

lemma srmhd_out_primitives:
  "\<exists>b2' rpar' r q bx' by' bz' mu ef'.
     w_out (SingleC2P_IdealSRMHD u eos s2 b2 rpar w df ef mi) =
       fst (SRMHD_primitives (u_out (SingleC2P_IdealSRMHD u eos s2 b2 rpar w df ef mi))
              eos b2' rpar' r q bx' by' bz' mu w ef') \<and>
     lor_out (SingleC2P_IdealSRMHD u eos s2 b2 rpar w df ef mi) =
       snd (snd (SRMHD_primitives (u_out (SingleC2P_IdealSRMHD u eos s2 b2 rpar w df ef mi))
              eos b2' rpar' r q bx' by' bz' mu w ef'))"
  unfolding SingleC2P_IdealSRMHD_def Let_def split_def
  by (simp only: C2P_out.simps SRMHD_out.simps) blast

lemma mhd_w_out_d:
  "HydPrim1D.d (w_out (SingleC2P_IdealMHD u eos w df ef)) =
     MHDCons1D.d (u_out (SingleC2P_IdealMHD u eos w df ef))"
  by (simp add: SingleC2P_IdealMHD_def Let_def)

text \<open>
  C3, as the code has it.  \<^verbatim>\<open>SingleC2P_IdealMHD\<close> returns a primitive density of at
  least \<open>dfloor\<close>.  \<^verbatim>\<open>SingleC2P_IdealSRMHD\<close> leaves a conserved density of at least
  \<open>dfloor\<close>; the primitive density it returns is that conserved density divided by the
  Lorentz factor \<open>lor\<close>, and no floor is applied to the quotient.
\<close>

theorem density_bound:
  "dfloor eos \<le> HydPrim1D.d (w_out (SingleC2P_IdealMHD u eos w df ef)) \<and>
   dfloor eos \<le> MHDCons1D.d (u_out (SingleC2P_IdealSRMHD u eos s2 b2 rpar w df ef mi)) \<and>
   HydPrim1D.d (w_out (SingleC2P_IdealSRMHD u eos s2 b2 rpar w df ef mi)) =
     MHDCons1D.d (u_out (SingleC2P_IdealSRMHD u eos s2 b2 rpar w df ef mi)) /
       lor_out (SingleC2P_IdealSRMHD u eos s2 b2 rpar w df ef mi)"
proof -
  have "dfloor eos \<le> HydPrim1D.d (w_out (SingleC2P_IdealMHD u eos w df ef))"
    by (simp add: mhd_w_out_d mhd_u_out Let_def)
  moreover have "dfloor eos \<le> MHDCons1D.d (u_out (SingleC2P_IdealSRMHD u eos s2 b2 rpar w df ef mi))"
    by (simp add: srmhd_u_out SRMHD_floors_eq)
  moreover have "HydPrim1D.d (w_out (SingleC2P_IdealSRMHD u eos s2 b2 rpar w df ef mi)) =
     MHDCons1D.d (u_out (SingleC2P_IdealSRMHD u eos s2 b2 rpar w df ef mi)) /
       lor_out (SingleC2P_IdealSRMHD u eos s2 b2 rpar w df ef mi)"
    using srmhd_out_primitives [of u eos s2 b2 rpar w df ef mi]
    by (auto simp: SRMHD_primitives_d)
  ultimately show ?thesis by blast
qed

subsection \<open>The cold moving fluid\<close>

text \<open>
  For the cold fluid the bracket function is linear, so the first loop stops in its first
  pass at \<open>z = 4/5\<close>; the master function vanishes there, so the second loop stops in its
  first pass at the same point.
\<close>

lemma sqrt_25_16: "sqrt (25 / 16) = 5 / 4"
  by (rule real_sqrt_unique) (simp_all add: power2_eq_square)

lemma sqrt_9_16: "sqrt (9 / 16) = 3 / 4"
  by (rule real_sqrt_unique) (simp_all add: power2_eq_square)

lemma Equation49_cold: "Equation49 mu 0 0 (3 / 4) q = mu * 5 / 4 - 1"
  by (simp add: Equation49_def Let_def sqrt_25_16)

lemma phase1_cold:
  "false_position_phase (\<lambda>z. Equation49 z 0 0 (3 / 4) q) 0 1 = (0, 4 / 5, 1)"
  by (simp add: false_position_phase_def Equation49_cold Let_def tol_def max_iterations_def
      false_position.simps)

lemma Equation44_cold_0: "Equation44 0 0 0 (3 / 4) (1 / 4) 1 eos_cold = - 12 / 17"
  by (simp add: Equation44_def Let_def eos_cold_def SQR_def)

lemma Equation44_cold_z: "Equation44 (4 / 5) 0 0 (3 / 4) (1 / 4) 1 eos_cold = 0"
  by (simp add: Equation44_def Let_def eos_cold_def SQR_def sqrt_25_16)

lemma phase2_cold:
  "false_position_phase (\<lambda>z. Equation44 z 0 0 (3 / 4) (1 / 4) 1 eos_cold) 0 (4 / 5)
    = (0, 4 / 5, 1)"
  by (simp add: false_position_phase_def Equation44_cold_0 Equation44_cold_z Let_def tol_def
      max_iterations_def false_position.simps)

lemma floors_cold: "SRMHD_floors u_cold eos_cold 0 df ef = (u_cold, df, ef)"
  by (simp add: SRMHD_floors_def u_cold_def eos_cold_def)

lemma primitives_cold:
  "SRMHD_primitives u_cold eos_cold 0 0 (3 / 4) (1 / 4) 0 0 0 (4 / 5) w_init False =
    (\<lparr>HydPrim1D.d = 4 / 5, vx = 3 / 4, vy = 0, vz = 0, e = 0\<rparr>, True, 5 / 4)"
  by (simp add: SRMHD_primitives_def Let_def SQR_def sqrt_25_16 eos_cold_def u_cold_def
      w_init_def)

lemma run_cold:
  "SingleC2P_IdealSRMHD u_cold eos_cold (9 / 16) 0 0 w_init False False 0 =
    \<lparr>u_out = u_cold,
     w_out = \<lparr>HydPrim1D.d = 4 / 5, vx = 3 / 4, vy = 0, vz = 0, e = 0\<rparr>,
     dfloor_used_out = False, efloor_used_out = True, max_iter_out = 0,
     mu_out = 4 / 5, lor_out = 5 / 4, iter1 = 0, trips1 = 1, iter2 = 0, trips2 = 1\<rparr>"
proof -
  have u: "MHDCons1D.d u_cold = 1" "MHDCons1D.e u_cold = 1 / 4" "MHDCons1D.bx u_cold = 0"
    "MHDCons1D.by u_cold = 0" "MHDCons1D.bz u_cold = 0"
    by (simp_all add: u_cold_def)
  show ?thesis
    by (simp add: SingleC2P_IdealSRMHD_def floors_cold u sqrt_9_16 phase1_cold phase2_cold
        primitives_cold)
qed

text \<open>
  The claim that the returned primitive density is at least \<open>dfloor\<close> after every
  conversion fails for the cold fluid: its conserved density 1 is not below the floor 1,
  and \<^verbatim>\<open>SingleC2P_IdealSRMHD\<close> returns the primitive density 4/5.
\<close>

theorem density_bound_counterexample:
  "HydPrim1D.d (w_out (SingleC2P_IdealSRMHD u_cold eos_cold (9 / 16) 0 0 w_init False False 0))
     < dfloor eos_cold"
  unfolding run_cold by (simp add: eos_cold_def)

section \<open>The non-relativistic round trip\<close>

subsection \<open>The rounding function\<close>

text \<open>
  \<open>double_round\<close> changes a number by at most \<open>2^-53\<close> of its magnitude.  When the
  binade of the argument is known, the result is computed from its definition without
  the logarithm.
\<close>

lemma rne_error: "\<bar>of_int (rne y) - y\<bar> \<le> 1 / 2"
  by (simp add: rne_def Let_def)

lemma double_round_0: "double_round 0 = 0"
  by (simp add: double_round_def)

lemma double_round_exponent:
  assumes "ulp = 2 powr of_int j" and "2 ^ 52 * ulp \<le> \<bar>x\<bar>" and "\<bar>x\<bar> < 2 ^ 53 * ulp"
  shows "double_round x = sgn x * of_int (rne (\<bar>x\<bar> / ulp)) * ulp"
proof -
  have u: "0 < ulp" by (simp add: assms(1))
  with assms(2) have x: "x \<noteq> 0" "0 < \<bar>x\<bar>"
    using less_le_trans [of 0 "2 ^ 52 * ulp" "\<bar>x\<bar>"] by auto
  have p: "(2::real) ^ 52 * ulp = 2 powr of_int (52 + j)" "(2::real) ^ 53 * ulp = 2 powr of_int (52 + j + 1)"
    by (simp_all add: assms(1) powr_add powr_realpow [symmetric])
  have "\<lfloor>log 2 \<bar>x\<bar>\<rfloor> = 52 + j"
    using assms(2,3) x(2) unfolding p
    by (subst floor_log_eq_powr_iff) simp_all
  then show ?thesis
    using x(1) by (simp add: double_round_def Let_def assms(1))
qed

lemma double_round_error: "\<bar>double_round x - x\<bar> \<le> (1 / 2 ^ 53) * \<bar>x\<bar>"
proof (cases "x = 0")
  case True
  then show ?thesis by (simp add: double_round_0)
next
  case False
  define e where "e = \<lfloor>log 2 \<bar>x\<bar>\<rfloor>"
  define ulp :: real where "ulp = 2 powr (of_int e - 52)"
  have u: "0 < ulp" by (simp add: ulp_def)
  have "2 powr of_int e \<le> \<bar>x\<bar>"
    using False floor_log_eq_powr_iff [of "\<bar>x\<bar>" 2 e] by (simp add: e_def)
  moreover have "2 powr of_int e = 2 ^ 52 * ulp"
    by (simp add: ulp_def powr_diff powr_realpow [symmetric])
  ultimately have lo: "2 ^ 52 * ulp \<le> \<bar>x\<bar>" by simp
  have d: "double_round x = sgn x * of_int (rne (\<bar>x\<bar> / ulp)) * ulp"
    using False by (simp add: double_round_def Let_def e_def ulp_def)
  have "x = sgn x * (\<bar>x\<bar> / ulp) * ulp"
    using u by (simp add: sgn_mult_abs)
  then have "double_round x - x = sgn x * (of_int (rne (\<bar>x\<bar> / ulp)) - \<bar>x\<bar> / ulp) * ulp"
    unfolding d by (simp add: algebra_simps)
  then have "\<bar>double_round x - x\<bar> = \<bar>of_int (rne (\<bar>x\<bar> / ulp)) - \<bar>x\<bar> / ulp\<bar> * ulp"
    using False u by (simp add: abs_mult abs_sgn_eq)
  also have "\<dots> \<le> 1 / 2 * ulp"
    using rne_error [of "\<bar>x\<bar> / ulp"] u by (simp add: mult_right_mono)
  also have "\<dots> = (1 / 2 ^ 53) * (2 ^ 52 * ulp)" by simp
  also have "\<dots> \<le> (1 / 2 ^ 53) * \<bar>x\<bar>"
    using lo by (simp add: mult_left_mono)
  finally show ?thesis .
qed

subsection \<open>The rounded converters\<close>

text \<open>
  With the identity for the rounding function the rounded converters are the exact ones.
\<close>

lemma SingleC2P_IdealMHD_fl_exact:
  "SingleC2P_IdealMHD_fl (\<lambda>x. x) u eos w df ef = SingleC2P_IdealMHD u eos w df ef"
  by (simp add: SingleC2P_IdealMHD_fl_def SingleC2P_IdealMHD_def)

lemma SingleP2C_IdealMHD_fl_exact:
  "SingleP2C_IdealMHD_fl (\<lambda>x. x) w u = SingleP2C_IdealMHD w u"
  by (simp add: SingleP2C_IdealMHD_fl_def SingleP2C_IdealMHD_def)

text \<open>
  When no flag is set by the first call, the density is not below the floor and the
  state after the round trip is the following expression in the conserved state at entry.
\<close>

lemma round_trip_fl_no_floor:
  assumes "\<not> dfloor_used_out (SingleC2P_IdealMHD_fl rnd u eos w False False)"
    and "\<not> efloor_used_out (SingleC2P_IdealMHD_fl rnd u eos w False False)"
  shows "\<not> MHDCons1D.d u < dfloor eos"
    and "round_trip_fl rnd u eos w c =
      \<lparr>HydCons1D.d = MHDCons1D.d u,
       mx = rnd (MHDCons1D.d u * rnd (rnd (1 / MHDCons1D.d u) * MHDCons1D.mx u)),
       my = rnd (MHDCons1D.d u * rnd (rnd (1 / MHDCons1D.d u) * MHDCons1D.my u)),
       mz = rnd (MHDCons1D.d u * rnd (rnd (1 / MHDCons1D.d u) * MHDCons1D.mz u)),
       e = rnd (rnd (rnd (MHDCons1D.e u -
                 rnd (rnd (0.5 * rnd (1 / MHDCons1D.d u)) *
                   rnd (rnd (rnd (SQR (MHDCons1D.mx u)) + rnd (SQR (MHDCons1D.my u))) +
                        rnd (SQR (MHDCons1D.mz u))))) -
                 rnd (0.5 *
                   rnd (rnd (rnd (SQR (MHDCons1D.bx u)) + rnd (SQR (MHDCons1D.by u))) +
                        rnd (SQR (MHDCons1D.bz u))))) +
               rnd (0.5 *
                 rnd (rnd (MHDCons1D.d u *
                        rnd (rnd (rnd (SQR (rnd (rnd (1 / MHDCons1D.d u) * MHDCons1D.mx u))) +
                                  rnd (SQR (rnd (rnd (1 / MHDCons1D.d u) * MHDCons1D.my u)))) +
                             rnd (SQR (rnd (rnd (1 / MHDCons1D.d u) * MHDCons1D.mz u))))) +
                      rnd (rnd (rnd (SQR (MHDCons1D.bx u)) + rnd (SQR (MHDCons1D.by u))) +
                           rnd (SQR (MHDCons1D.bz u))))))\<rparr>"
proof -
  show d: "\<not> MHDCons1D.d u < dfloor eos"
    using assms(1) by (auto simp: SingleC2P_IdealMHD_fl_def Let_def split: if_splits)
  show "round_trip_fl rnd u eos w c = \<lparr>HydCons1D.d = MHDCons1D.d u,
       mx = rnd (MHDCons1D.d u * rnd (rnd (1 / MHDCons1D.d u) * MHDCons1D.mx u)),
       my = rnd (MHDCons1D.d u * rnd (rnd (1 / MHDCons1D.d u) * MHDCons1D.my u)),
       mz = rnd (MHDCons1D.d u * rnd (rnd (1 / MHDCons1D.d u) * MHDCons1D.mz u)),
       e = rnd (rnd (rnd (MHDCons1D.e u -
                 rnd (rnd (0.5 * rnd (1 / MHDCons1D.d u)) *
                   rnd (rnd (rnd (SQR (MHDCons1D.mx u)) + rnd (SQR (MHDCons1D.my u))) +
                        rnd (SQR (MHDCons1D.mz u))))) -
                 rnd (0.5 *
                   rnd (rnd (rnd (SQR (MHDCons1D.bx u)) + rnd (SQR (MHDCons1D.by u))) +
                        rnd (SQR (MHDCons1D.bz u))))) +
               rnd (0.5 *
                 rnd (rnd (MHDCons1D.d u *
                        rnd (rnd (rnd (SQR (rnd (rnd (1 / MHDCons1D.d u) * MHDCons1D.mx u))) +
                                  rnd (SQR (rnd (rnd (1 / MHDCons1D.d u) * MHDCons1D.my u)))) +
                             rnd (SQR (rnd (rnd (1 / MHDCons1D.d u) * MHDCons1D.mz u))))) +
                      rnd (rnd (rnd (SQR (MHDCons1D.bx u)) + rnd (SQR (MHDCons1D.by u))) +
                           rnd (SQR (MHDCons1D.bz u))))))\<rparr>"
    using assms(2) d
    by (cases c)
      (auto simp: round_trip_fl_def SingleP2C_IdealMHD_fl_def SingleC2P_IdealMHD_fl_def
        with_field_def Let_def split: if_splits)
qed

subsection \<open>Accumulation of the rounding errors\<close>

lemma accurate_refl: "accurate eps 0 x x"
  by (simp add: accurate_def)

lemma accurate_abs:
  assumes "accurate eps n x y"
  shows "\<bar>x\<bar> \<le> (1 + eps) ^ n * \<bar>y\<bar>"
proof -
  have "\<bar>x\<bar> \<le> \<bar>x - y\<bar> + \<bar>y\<bar>" by simp
  also have "\<dots> \<le> ((1 + eps) ^ n - 1) * \<bar>y\<bar> + \<bar>y\<bar>"
    using assms by (simp add: accurate_def)
  also have "\<dots> = (1 + eps) ^ n * \<bar>y\<bar>" by (simp add: algebra_simps)
  finally show ?thesis .
qed

lemma accurate_rnd:
  assumes r: "\<And>x. \<bar>rnd x - x\<bar> \<le> eps * \<bar>x\<bar>" and e: "0 \<le> eps" and w: "accurate eps n x y"
  shows "accurate eps (Suc n) (rnd x) y"
proof -
  have "\<bar>rnd x - y\<bar> \<le> \<bar>rnd x - x\<bar> + \<bar>x - y\<bar>" by simp
  also have "\<dots> \<le> eps * \<bar>x\<bar> + ((1 + eps) ^ n - 1) * \<bar>y\<bar>"
    using r [of x] w by (simp add: accurate_def)
  also have "\<dots> \<le> eps * ((1 + eps) ^ n * \<bar>y\<bar>) + ((1 + eps) ^ n - 1) * \<bar>y\<bar>"
    using accurate_abs [OF w] e by (simp add: mult_left_mono)
  also have "\<dots> = ((1 + eps) ^ Suc n - 1) * \<bar>y\<bar>" by (simp add: algebra_simps)
  finally show ?thesis by (simp add: accurate_def)
qed

lemma accurate_mono:
  assumes e: "0 \<le> eps" and "n \<le> m" and w: "accurate eps n x y"
  shows "accurate eps m x y"
proof -
  have "(1 + eps) ^ n \<le> (1 + eps) ^ m"
    using e assms(2) by (simp add: power_increasing)
  then have "((1 + eps) ^ n - 1) * \<bar>y\<bar> \<le> ((1 + eps) ^ m - 1) * \<bar>y\<bar>"
    by (simp add: mult_right_mono)
  with w show ?thesis by (simp add: accurate_def)
qed

lemma accurate_mult:
  assumes e: "0 \<le> eps" and a: "accurate eps n x y" and b: "accurate eps m x' y'"
  shows "accurate eps (n + m) (x * x') (y * y')"
proof -
  define A where "A = (1 + eps) ^ n"
  define B where "B = (1 + eps) ^ m"
  have A: "1 \<le> A" and B: "1 \<le> B" using e by (simp_all add: A_def B_def)
  have "x * x' - y * y' = x * (x' - y') + (x - y) * y'" by (simp add: algebra_simps)
  then have "\<bar>x * x' - y * y'\<bar> \<le> \<bar>x\<bar> * \<bar>x' - y'\<bar> + \<bar>x - y\<bar> * \<bar>y'\<bar>"
    by (metis abs_mult abs_triangle_ineq)
  also have "\<dots> \<le> (A * \<bar>y\<bar>) * ((B - 1) * \<bar>y'\<bar>) + ((A - 1) * \<bar>y\<bar>) * \<bar>y'\<bar>"
  proof -
    have "\<bar>x\<bar> * \<bar>x' - y'\<bar> \<le> (A * \<bar>y\<bar>) * ((B - 1) * \<bar>y'\<bar>)"
      using accurate_abs [OF a] b by (intro mult_mono) (simp_all add: accurate_def A_def B_def)
    moreover have "\<bar>x - y\<bar> * \<bar>y'\<bar> \<le> ((A - 1) * \<bar>y\<bar>) * \<bar>y'\<bar>"
      using a by (intro mult_right_mono) (simp_all add: accurate_def A_def)
    ultimately show ?thesis by linarith
  qed
  also have "\<dots> = (A * B - 1) * \<bar>y * y'\<bar>" by (simp add: algebra_simps abs_mult)
  finally show ?thesis by (simp add: accurate_def A_def B_def power_add)
qed

lemma accurate_add:
  assumes "0 \<le> y" and "0 \<le> y'" and a: "accurate eps n x y" and b: "accurate eps n x' y'"
  shows "accurate eps n (x + x') (y + y')"
proof -
  have "\<bar>x + x' - (y + y')\<bar> \<le> \<bar>x - y\<bar> + \<bar>x' - y'\<bar>" by simp
  also have "\<dots> \<le> ((1 + eps) ^ n - 1) * \<bar>y\<bar> + ((1 + eps) ^ n - 1) * \<bar>y'\<bar>"
    using a b by (simp add: accurate_def)
  also have "\<dots> = ((1 + eps) ^ n - 1) * \<bar>y + y'\<bar>"
    using assms(1,2) by (simp add: algebra_simps)
  finally show ?thesis by (simp add: accurate_def)
qed

lemma accurate_sq_sum:
  assumes r: "\<And>x. \<bar>rnd x - x\<bar> \<le> eps * \<bar>x\<bar>" and e: "0 \<le> eps"
    and x: "accurate eps n x x0" and y: "accurate eps n y y0" and z: "accurate eps n z z0"
  shows "accurate eps (Suc (Suc (Suc (n + n))))
    (rnd (rnd (rnd (SQR x) + rnd (SQR y)) + rnd (SQR z))) (SQR x0 + SQR y0 + SQR z0)"
proof -
  have sq: "accurate eps (Suc (n + n)) (rnd (SQR a)) (SQR a0)" if "accurate eps n a a0" for a a0
    unfolding SQR_def by (intro accurate_rnd [OF r e] accurate_mult [OF e] that)
  have nn: "0 \<le> SQR x0" "0 \<le> SQR y0" "0 \<le> SQR z0" "0 \<le> SQR x0 + SQR y0"
    by (simp_all add: SQR_def)
  have "accurate eps (Suc (n + n)) (rnd (SQR x) + rnd (SQR y)) (SQR x0 + SQR y0)"
    by (intro accurate_add nn sq x y)
  then have "accurate eps (Suc (Suc (n + n))) (rnd (rnd (SQR x) + rnd (SQR y))) (SQR x0 + SQR y0)"
    by (rule accurate_rnd [OF r e])
  moreover have "accurate eps (Suc (Suc (n + n))) (rnd (SQR z)) (SQR z0)"
    by (rule accurate_mono [OF e _ sq [OF z]]) simp
  ultimately have "accurate eps (Suc (Suc (n + n)))
      (rnd (rnd (SQR x) + rnd (SQR y)) + rnd (SQR z)) (SQR x0 + SQR y0 + SQR z0)"
    by (intro accurate_add nn)
  then show ?thesis by (rule accurate_rnd [OF r e])
qed

lemma accurate_numeral:
  assumes "accurate eps n x y" and "n = m"
  shows "accurate eps m x y"
  using assms by (simp only:)

text \<open>
  The velocity is the momentum over the density up to two roundings, and the momentum
  after the round trip is the momentum at entry up to three.
\<close>

lemma accurate_momentum:
  assumes r: "\<And>x. \<bar>rnd x - x\<bar> \<le> eps * \<bar>x\<bar>" and e: "0 \<le> eps" and d: "rho \<noteq> 0"
  shows "accurate eps 2 (rnd (rnd (1 / rho) * m)) (1 / rho * m)"
    and "\<bar>rnd (rho * rnd (rnd (1 / rho) * m)) - m\<bar> \<le> ((1 + eps) ^ 3 - 1) * \<bar>m\<bar>"
proof -
  have "accurate eps (Suc 0) (rnd (1 / rho)) (1 / rho)"
    by (intro accurate_rnd [OF r e] accurate_refl)
  then have "accurate eps (Suc 0 + 0) (rnd (1 / rho) * m) (1 / rho * m)"
    by (intro accurate_mult [OF e] accurate_refl)
  then have "accurate eps (Suc (Suc 0)) (rnd (rnd (1 / rho) * m)) (1 / rho * m)"
    using accurate_rnd [OF r e] by simp
  then show v: "accurate eps 2 (rnd (rnd (1 / rho) * m)) (1 / rho * m)"
    by (simp add: numeral_2_eq_2)
  have "accurate eps (0 + 2) (rho * rnd (rnd (1 / rho) * m)) (rho * (1 / rho * m))"
    by (intro accurate_mult [OF e] accurate_refl v)
  then have "accurate eps (Suc (0 + 2)) (rnd (rho * rnd (rnd (1 / rho) * m))) (rho * (1 / rho * m))"
    by (rule accurate_rnd [OF r e])
  moreover have "rho * (1 / rho * m) = m" using d by simp
  moreover have "Suc (0 + 2) = 3" by simp
  ultimately have "accurate eps 3 (rnd (rho * rnd (rnd (1 / rho) * m))) m"
    by (simp only:)
  then show "\<bar>rnd (rho * rnd (rnd (1 / rho) * m)) - m\<bar> \<le> ((1 + eps) ^ 3 - 1) * \<bar>m\<bar>"
    by (simp only: accurate_def)
qed

text \<open>
  The energy after the round trip is the energy at entry less the rounded \<open>e_k\<close> and \<open>e_m\<close>,
  plus the rounded kinetic and magnetic term \<open>hb\<close> of \<^verbatim>\<open>SingleP2C_IdealMHD\<close>, with
  three more roundings.
\<close>

lemma accurate_energy:
  assumes r: "\<And>x. \<bar>rnd x - x\<bar> \<le> eps * \<bar>x\<bar>" and e: "0 \<le> eps"
    and K: "0 \<le> K" and M: "0 \<le> M"
    and ek: "accurate eps 6 ek K" and em: "accurate eps 4 em M"
    and hb: "accurate eps 10 hb (K + M)"
  shows "\<bar>rnd (rnd (rnd (E - ek) - em) + hb) - E\<bar>
    \<le> energy_rounding_bound eps * (\<bar>E\<bar> + K + M)"
proof -
  define T where "T = \<bar>E\<bar> + K + M"
  define p where "p n = (1 + eps) ^ n" for n :: nat
  define a where "a = E - ek"
  define x1 where "x1 = rnd a"
  define x2 where "x2 = x1 - em"
  define we where "we = rnd x2"
  define x3 where "x3 = we + hb"
  define D where "D = eps * p 7 + eps * p 6 + 2 * (p 10 - 1)"
  have T: "0 \<le> T" "\<bar>E\<bar> + K \<le> T" "K + M \<le> T" "K \<le> T" "M \<le> T"
    using K M by (simp_all add: T_def)
  have p1: "1 \<le> p n" for n using e by (simp add: p_def)
  have pm: "p n \<le> p m" if "n \<le> m" for n m
    using e that by (simp add: p_def power_increasing)
  have ekK: "\<bar>ek - K\<bar> \<le> (p 6 - 1) * K" "\<bar>ek\<bar> \<le> p 6 * K"
    using ek accurate_abs [OF ek] K by (simp_all add: accurate_def p_def)
  have emM: "\<bar>em - M\<bar> \<le> (p 4 - 1) * M" "\<bar>em\<bar> \<le> p 4 * M"
    using em accurate_abs [OF em] M by (simp_all add: accurate_def p_def)
  have hbKM: "\<bar>hb - (K + M)\<bar> \<le> (p 10 - 1) * (K + M)"
    using hb K M by (simp add: accurate_def p_def)
  have "\<bar>a\<bar> \<le> \<bar>E\<bar> + \<bar>ek\<bar>" by (simp add: a_def)
  also have "\<dots> \<le> \<bar>E\<bar> + p 6 * K" using ekK(2) by simp
  also have "\<dots> \<le> p 6 * \<bar>E\<bar> + p 6 * K"
    using p1 [of 6] by (simp add: mult_right_mono [of 1 "p 6" "\<bar>E\<bar>", simplified])
  finally have a: "\<bar>a\<bar> \<le> p 6 * (\<bar>E\<bar> + K)" by (simp add: algebra_simps)
  have x1a: "\<bar>x1 - a\<bar> \<le> eps * (p 6 * (\<bar>E\<bar> + K))"
    using r [of a] a e order_trans [OF _ mult_left_mono [OF a e]] by (simp add: x1_def)
  have "\<bar>x1\<bar> \<le> \<bar>x1 - a\<bar> + \<bar>a\<bar>" by simp
  also have "\<dots> \<le> eps * (p 6 * (\<bar>E\<bar> + K)) + p 6 * (\<bar>E\<bar> + K)" using x1a a by simp
  also have "\<dots> = p 7 * (\<bar>E\<bar> + K)"
  proof -
    have "p 7 = (1 + eps) * p 6"
      unfolding p_def using power_Suc [of "1 + eps" 6] by simp
    then show ?thesis by (simp add: algebra_simps)
  qed
  finally have x1: "\<bar>x1\<bar> \<le> p 7 * (\<bar>E\<bar> + K)" .
  have "p 4 * M \<le> p 7 * M" using pm [of 4 7] M by (simp add: mult_right_mono)
  then have "\<bar>x2\<bar> \<le> p 7 * (\<bar>E\<bar> + K) + p 7 * M"
    using x1 emM(2) by (simp add: x2_def)
  then have x2: "\<bar>x2\<bar> \<le> p 7 * T" by (simp add: T_def algebra_simps)
  have wex2: "\<bar>we - x2\<bar> \<le> eps * (p 7 * T)"
    using r [of x2] order_trans [OF _ mult_left_mono [OF x2 e]] by (simp add: we_def)
  have x1a': "\<bar>x1 - a\<bar> \<le> eps * (p 6 * T)"
  proof -
    have "p 6 * (\<bar>E\<bar> + K) \<le> p 6 * T"
      using T(2) p1 [of 6] by (simp add: mult_left_mono)
    then have "eps * (p 6 * (\<bar>E\<bar> + K)) \<le> eps * (p 6 * T)"
      using e by (simp add: mult_left_mono)
    with x1a show ?thesis by linarith
  qed
  have g: "(p 6 - 1) * K + (p 4 - 1) * M \<le> (p 10 - 1) * T"
  proof -
    have "(p 6 - 1) * K \<le> (p 10 - 1) * K" "(p 4 - 1) * M \<le> (p 10 - 1) * M"
      using pm [of 6 10] pm [of 4 10] K M by (simp_all add: mult_right_mono)
    moreover have "(p 10 - 1) * K + (p 10 - 1) * M \<le> (p 10 - 1) * T"
      using T(3) p1 [of 10] by (simp add: distrib_left [symmetric] mult_left_mono)
    ultimately show ?thesis by linarith
  qed
  have g': "(p 10 - 1) * (K + M) \<le> (p 10 - 1) * T"
    using T(3) p1 [of 10] by (simp add: mult_left_mono)
  have id: "x3 - E = (we - x2) + (x1 - a) - (ek - K) - (em - M) + (hb - (K + M))"
    by (simp add: x3_def x2_def a_def)
  have "\<bar>x3 - E\<bar> \<le> \<bar>we - x2\<bar> + \<bar>x1 - a\<bar> + \<bar>ek - K\<bar> + \<bar>em - M\<bar> + \<bar>hb - (K + M)\<bar>"
    unfolding id by linarith
  also have "\<dots> \<le> eps * (p 7 * T) + eps * (p 6 * T) + (p 10 - 1) * T + (p 10 - 1) * T"
    using wex2 x1a' ekK(1) emM(1) hbKM g g' by linarith
  also have "\<dots> = D * T" by (simp add: D_def algebra_simps)
  finally have x3E: "\<bar>x3 - E\<bar> \<le> D * T" .
  have "\<bar>x3\<bar> \<le> \<bar>E\<bar> + \<bar>x3 - E\<bar>" by simp
  also have "\<dots> \<le> T + D * T" using x3E T K M by (simp add: T_def)
  finally have x3: "\<bar>x3\<bar> \<le> T + D * T" .
  have "\<bar>rnd x3 - x3\<bar> \<le> eps * (T + D * T)"
    using r [of x3] order_trans [OF _ mult_left_mono [OF x3 e]] by simp
  then have "\<bar>rnd x3 - E\<bar> \<le> eps * (T + D * T) + D * T"
    using x3E by linarith
  also have "\<dots> = ((1 + eps) * D + eps) * T" by (simp add: algebra_simps)
  finally show ?thesis
    by (simp add: x3_def we_def x2_def x1_def a_def D_def p_def T_def energy_rounding_bound_def)
qed


text \<open>
  The local \<open>e_k\<close> is the kinetic energy up to six roundings, \<open>e_m\<close> the magnetic energy up
  to four, and the term that \<^verbatim>\<open>SingleP2C_IdealMHD\<close> adds to the internal energy is their
  sum up to ten: the velocities carry two roundings each, and the density is positive.
\<close>

lemma accurate_kinetic:
  assumes r: "\<And>x. \<bar>rnd x - x\<bar> \<le> eps * \<bar>x\<bar>" and e: "0 \<le> eps"
  shows "accurate eps 6
    (rnd (rnd (0.5 * rnd (1 / MHDCons1D.d u)) *
       rnd (rnd (rnd (SQR (MHDCons1D.mx u)) + rnd (SQR (MHDCons1D.my u))) +
            rnd (SQR (MHDCons1D.mz u)))))
    (kinetic_energy u)"
proof -
  have "accurate eps (Suc 0) (rnd (1 / MHDCons1D.d u)) (1 / MHDCons1D.d u)"
    by (intro accurate_rnd [OF r e] accurate_refl)
  then have "accurate eps (0 + Suc 0) (0.5 * rnd (1 / MHDCons1D.d u)) (0.5 * (1 / MHDCons1D.d u))"
    by (intro accurate_mult [OF e] accurate_refl)
  then have "accurate eps (Suc (0 + Suc 0)) (rnd (0.5 * rnd (1 / MHDCons1D.d u)))
      (0.5 * (1 / MHDCons1D.d u))"
    by (rule accurate_rnd [OF r e])
  moreover have "accurate eps (Suc (Suc (Suc (0 + 0))))
      (rnd (rnd (rnd (SQR (MHDCons1D.mx u)) + rnd (SQR (MHDCons1D.my u))) +
            rnd (SQR (MHDCons1D.mz u))))
      (SQR (MHDCons1D.mx u) + SQR (MHDCons1D.my u) + SQR (MHDCons1D.mz u))"
    by (intro accurate_sq_sum [OF r e] accurate_refl)
  ultimately have "accurate eps (Suc (0 + Suc 0) + Suc (Suc (Suc (0 + 0))))
      (rnd (0.5 * rnd (1 / MHDCons1D.d u)) *
       rnd (rnd (rnd (SQR (MHDCons1D.mx u)) + rnd (SQR (MHDCons1D.my u))) +
            rnd (SQR (MHDCons1D.mz u))))
      (0.5 * (1 / MHDCons1D.d u) *
       (SQR (MHDCons1D.mx u) + SQR (MHDCons1D.my u) + SQR (MHDCons1D.mz u)))"
    by (rule accurate_mult [OF e])
  then have "accurate eps (Suc (Suc (0 + Suc 0) + Suc (Suc (Suc (0 + 0)))))
      (rnd (rnd (0.5 * rnd (1 / MHDCons1D.d u)) *
       rnd (rnd (rnd (SQR (MHDCons1D.mx u)) + rnd (SQR (MHDCons1D.my u))) +
            rnd (SQR (MHDCons1D.mz u)))))
      (kinetic_energy u)"
    unfolding kinetic_energy_def by (rule accurate_rnd [OF r e])
  then show ?thesis by (rule accurate_numeral) simp
qed

lemma accurate_magnetic:
  assumes r: "\<And>x. \<bar>rnd x - x\<bar> \<le> eps * \<bar>x\<bar>" and e: "0 \<le> eps"
  shows "accurate eps 4
    (rnd (0.5 *
       rnd (rnd (rnd (SQR (MHDCons1D.bx u)) + rnd (SQR (MHDCons1D.by u))) +
            rnd (SQR (MHDCons1D.bz u)))))
    (magnetic_energy u)"
proof -
  have "accurate eps (Suc (Suc (Suc (0 + 0))))
      (rnd (rnd (rnd (SQR (MHDCons1D.bx u)) + rnd (SQR (MHDCons1D.by u))) +
            rnd (SQR (MHDCons1D.bz u))))
      (SQR (MHDCons1D.bx u) + SQR (MHDCons1D.by u) + SQR (MHDCons1D.bz u))"
    by (intro accurate_sq_sum [OF r e] accurate_refl)
  then have "accurate eps (0 + Suc (Suc (Suc (0 + 0))))
      (0.5 * rnd (rnd (rnd (SQR (MHDCons1D.bx u)) + rnd (SQR (MHDCons1D.by u))) +
            rnd (SQR (MHDCons1D.bz u))))
      (0.5 * (SQR (MHDCons1D.bx u) + SQR (MHDCons1D.by u) + SQR (MHDCons1D.bz u)))"
    by (intro accurate_mult [OF e] accurate_refl)
  then have "accurate eps (Suc (0 + Suc (Suc (Suc (0 + 0)))))
      (rnd (0.5 * rnd (rnd (rnd (SQR (MHDCons1D.bx u)) + rnd (SQR (MHDCons1D.by u))) +
            rnd (SQR (MHDCons1D.bz u)))))
      (magnetic_energy u)"
    unfolding magnetic_energy_def by (rule accurate_rnd [OF r e])
  then show ?thesis by (rule accurate_numeral) simp
qed

lemma accurate_total:
  assumes r: "\<And>x. \<bar>rnd x - x\<bar> \<le> eps * \<bar>x\<bar>" and e: "0 \<le> eps"
    and d: "0 < MHDCons1D.d u"
  shows "accurate eps 10
    (rnd (0.5 *
       rnd (rnd (MHDCons1D.d u *
              rnd (rnd (rnd (SQR (rnd (rnd (1 / MHDCons1D.d u) * MHDCons1D.mx u))) +
                        rnd (SQR (rnd (rnd (1 / MHDCons1D.d u) * MHDCons1D.my u)))) +
                   rnd (SQR (rnd (rnd (1 / MHDCons1D.d u) * MHDCons1D.mz u))))) +
            rnd (rnd (rnd (SQR (MHDCons1D.bx u)) + rnd (SQR (MHDCons1D.by u))) +
                 rnd (SQR (MHDCons1D.bz u))))))
    (kinetic_energy u + magnetic_energy u)"
proof -
  define V where "V = SQR (1 / MHDCons1D.d u * MHDCons1D.mx u) +
      SQR (1 / MHDCons1D.d u * MHDCons1D.my u) + SQR (1 / MHDCons1D.d u * MHDCons1D.mz u)"
  define B where "B = SQR (MHDCons1D.bx u) + SQR (MHDCons1D.by u) + SQR (MHDCons1D.bz u)"
  define sv where "sv =
      rnd (rnd (rnd (SQR (rnd (rnd (1 / MHDCons1D.d u) * MHDCons1D.mx u))) +
                rnd (SQR (rnd (rnd (1 / MHDCons1D.d u) * MHDCons1D.my u)))) +
           rnd (SQR (rnd (rnd (1 / MHDCons1D.d u) * MHDCons1D.mz u))))"
  define sb where "sb =
      rnd (rnd (rnd (SQR (MHDCons1D.bx u)) + rnd (SQR (MHDCons1D.by u))) +
           rnd (SQR (MHDCons1D.bz u)))"
  have d0: "MHDCons1D.d u \<noteq> 0" using d by simp
  have V: "0 \<le> V" and B: "0 \<le> B" by (simp_all add: V_def B_def SQR_def)
  have dV: "0 \<le> MHDCons1D.d u * V" using d V by simp
  have "accurate eps (Suc (Suc (Suc (2 + 2)))) sv V"
    unfolding sv_def V_def
    by (intro accurate_sq_sum [OF r e] accurate_momentum(1) [OF r e d0])
  then have "accurate eps (0 + Suc (Suc (Suc (2 + 2)))) (MHDCons1D.d u * sv) (MHDCons1D.d u * V)"
    by (intro accurate_mult [OF e] accurate_refl)
  then have "accurate eps (Suc (0 + Suc (Suc (Suc (2 + 2))))) (rnd (MHDCons1D.d u * sv))
      (MHDCons1D.d u * V)"
    by (rule accurate_rnd [OF r e])
  then have k: "accurate eps 8 (rnd (MHDCons1D.d u * sv)) (MHDCons1D.d u * V)"
    by (rule accurate_numeral) simp
  have "accurate eps (Suc (Suc (Suc (0 + 0)))) sb B"
    unfolding sb_def B_def by (intro accurate_sq_sum [OF r e] accurate_refl)
  then have b: "accurate eps 8 sb B"
    by (rule accurate_mono [OF e, rotated]) simp
  have "accurate eps 8 (rnd (MHDCons1D.d u * sv) + sb) (MHDCons1D.d u * V + B)"
    by (intro accurate_add dV B k b)
  then have "accurate eps (Suc 8) (rnd (rnd (MHDCons1D.d u * sv) + sb)) (MHDCons1D.d u * V + B)"
    by (rule accurate_rnd [OF r e])
  then have "accurate eps (0 + Suc 8) (0.5 * rnd (rnd (MHDCons1D.d u * sv) + sb))
      (0.5 * (MHDCons1D.d u * V + B))"
    by (intro accurate_mult [OF e] accurate_refl)
  then have "accurate eps (Suc (0 + Suc 8)) (rnd (0.5 * rnd (rnd (MHDCons1D.d u * sv) + sb)))
      (0.5 * (MHDCons1D.d u * V + B))"
    by (rule accurate_rnd [OF r e])
  then have "accurate eps 10 (rnd (0.5 * rnd (rnd (MHDCons1D.d u * sv) + sb)))
      (0.5 * (MHDCons1D.d u * V + B))"
    by (rule accurate_numeral) simp
  moreover have "0.5 * (MHDCons1D.d u * V + B) = kinetic_energy u + magnetic_energy u"
    using d0 by (simp add: V_def B_def kinetic_energy_def magnetic_energy_def SQR_def field_simps)
  ultimately show ?thesis
    unfolding sv_def sb_def by (simp only:)
qed

text \<open>
  C2, as the code has it.  Let every arithmetic operation round its exact result with a
  relative error of at most \<open>eps\<close> (exact arithmetic does with \<open>eps = 0\<close>, binary64 with
  \<open>eps = 2^-53\<close> as long as no operation overflows or underflows), let the density floor be
  positive (the data model of the specification has \<open>dfloor > 0\<close>), and let the conserved
  state trigger neither the density floor nor the energy floor in
  \<^verbatim>\<open>SingleC2P_IdealMHD\<close>.  Then \<^verbatim>\<open>SingleP2C_IdealMHD\<close>, applied to the returned
  primitives with the magnetic field of the conserved state, returns the density of the
  conserved state exactly, each momentum component with a relative error of at most
  \<open>(1 + eps)^3 - 1\<close>, and the total energy with an error of at most
  \<open>energy_rounding_bound eps\<close> times the sum of the magnitudes of the total, the kinetic and
  the magnetic energy.  In exact arithmetic the bounds are zero and the round trip gives
  back the state; in binary64 it does not in general.
\<close>

theorem MHD_round_trip_rounded:
  assumes r: "\<And>x. \<bar>rnd x - x\<bar> \<le> eps * \<bar>x\<bar>" and f: "0 < dfloor eos"
    and nd: "\<not> dfloor_used_out (SingleC2P_IdealMHD_fl rnd u eos w False False)"
    and ne: "\<not> efloor_used_out (SingleC2P_IdealMHD_fl rnd u eos w False False)"
  shows "HydCons1D.d (round_trip_fl rnd u eos w c) = MHDCons1D.d u \<and>
    \<bar>HydCons1D.mx (round_trip_fl rnd u eos w c) - MHDCons1D.mx u\<bar>
      \<le> ((1 + eps) ^ 3 - 1) * \<bar>MHDCons1D.mx u\<bar> \<and>
    \<bar>HydCons1D.my (round_trip_fl rnd u eos w c) - MHDCons1D.my u\<bar>
      \<le> ((1 + eps) ^ 3 - 1) * \<bar>MHDCons1D.my u\<bar> \<and>
    \<bar>HydCons1D.mz (round_trip_fl rnd u eos w c) - MHDCons1D.mz u\<bar>
      \<le> ((1 + eps) ^ 3 - 1) * \<bar>MHDCons1D.mz u\<bar> \<and>
    \<bar>HydCons1D.e (round_trip_fl rnd u eos w c) - MHDCons1D.e u\<bar>
      \<le> energy_rounding_bound eps *
          (\<bar>MHDCons1D.e u\<bar> + kinetic_energy u + magnetic_energy u)"
proof -
  have e: "0 \<le> eps" using r [of 1] by simp
  have d: "0 < MHDCons1D.d u"
    using round_trip_fl_no_floor(1) [OF nd ne] f by simp
  then have d0: "MHDCons1D.d u \<noteq> 0" by simp
  have K: "0 \<le> kinetic_energy u"
    using d by (simp add: kinetic_energy_def SQR_def)
  have M: "0 \<le> magnetic_energy u"
    by (simp add: magnetic_energy_def SQR_def)
  show ?thesis
    unfolding round_trip_fl_no_floor(2) [OF nd ne] HydCons1D.select_convs
    by (intro conjI refl accurate_momentum(2) [OF r e d0]
        accurate_energy [OF r e K M accurate_kinetic [OF r e] accurate_magnetic [OF r e]
          accurate_total [OF r e d]])
qed

subsection \<open>A state with density 3 in binary64\<close>

text \<open>
  The roundings of the round trip of the state with density 3, momentum (7, 0, 0) and
  energy 10, in the order of the source: \<open>gamma - 1\<close> and \<open>efloor\<close>; \<open>di = 1/3\<close>; \<open>vx = 7 di\<close>;
  the square 49 of the momentum; \<open>0.5 di\<close>; \<open>e_k\<close>; \<open>w.e = 10 - e_k\<close>; then the momentum
  \<open>3 vx\<close>; the square of \<open>vx\<close> (rounded, and unchanged by the two sums with zero); its
  product with the density (unchanged by the sum with the zero magnetic term); the half of
  that; and the energy.  The numerals are the arguments and the results as fractions in
  lowest terms.
\<close>

lemma double_round_half: "double_round (1 / 2) = 1 / 2"
  by (subst double_round_exponent [where j = "- 53" and ulp = "1 / 2 ^ 53"])
    (simp_all add: powr_minus_divide powr_realpow [symmetric] rne_def Let_def)

lemma double_round_efloor: "double_round (1 / 1099511627776) = 1 / 1099511627776"
  by (subst double_round_exponent [where j = "- 92" and ulp = "1 / 2 ^ 92"])
    (simp_all add: powr_minus_divide powr_realpow [symmetric] rne_def Let_def)

lemma double_round_di: "double_round (1 / 3) = 6004799503160661 / 18014398509481984"
  by (subst double_round_exponent [where j = "- 54" and ulp = "1 / 2 ^ 54"])
    (simp_all add: powr_minus_divide powr_realpow [symmetric] rne_def Let_def)

lemma double_round_vx: "double_round (42033596522124627 / 18014398509481984) = 2627099782632789 / 1125899906842624"
  by (subst double_round_exponent [where j = "- 51" and ulp = "1 / 2 ^ 51"])
    (simp_all add: powr_minus_divide powr_realpow [symmetric] rne_def Let_def)

lemma double_round_sm: "double_round 49 = 49"
  by (subst double_round_exponent [where j = "- 47" and ulp = "1 / 2 ^ 47"])
    (simp_all add: powr_minus_divide powr_realpow [symmetric] rne_def Let_def)

lemma double_round_half_di: "double_round (6004799503160661 / 36028797018963968) = 6004799503160661 / 36028797018963968"
  by (subst double_round_exponent [where j = "- 55" and ulp = "1 / 2 ^ 55"])
    (simp_all add: powr_minus_divide powr_realpow [symmetric] rne_def Let_def)

lemma double_round_e_k: "double_round (294235175654872389 / 36028797018963968) = 4597424619607381 / 562949953421312"
  by (subst double_round_exponent [where j = "- 49" and ulp = "1 / 2 ^ 49"])
    (simp_all add: powr_minus_divide powr_realpow [symmetric] rne_def Let_def)

lemma double_round_w_e: "double_round (1032074914605739 / 562949953421312) = 1032074914605739 / 562949953421312"
  by (subst double_round_exponent [where j = "- 52" and ulp = "1 / 2 ^ 52"])
    (simp_all add: powr_minus_divide powr_realpow [symmetric] rne_def Let_def)

lemma double_round_mx: "double_round (7881299347898367 / 1125899906842624) = 7881299347898367 / 1125899906842624"
  by (subst double_round_exponent [where j = "- 50" and ulp = "1 / 2 ^ 50"])
    (simp_all add: powr_minus_divide powr_realpow [symmetric] rne_def Let_def)

lemma double_round_vx_sq: "double_round (6901653267909247212304417918521 / 1267650600228229401496703205376) = 383118718300615 / 70368744177664"
  by (subst double_round_exponent [where j = "- 50" and ulp = "1 / 2 ^ 50"])
    (simp_all add: powr_minus_divide powr_realpow [symmetric] rne_def Let_def)

lemma double_round_s_v: "double_round (383118718300615 / 70368744177664) = 383118718300615 / 70368744177664"
  by (subst double_round_exponent [where j = "- 50" and ulp = "1 / 2 ^ 50"])
    (simp_all add: powr_minus_divide powr_realpow [symmetric] rne_def Let_def)

lemma double_round_k: "double_round (1149356154901845 / 70368744177664) = 1149356154901845 / 70368744177664"
  by (subst double_round_exponent [where j = "- 48" and ulp = "1 / 2 ^ 48"])
    (simp_all add: powr_minus_divide powr_realpow [symmetric] rne_def Let_def)

lemma double_round_half_k: "double_round (1149356154901845 / 140737488355328) = 1149356154901845 / 140737488355328"
  by (subst double_round_exponent [where j = "- 49" and ulp = "1 / 2 ^ 49"])
    (simp_all add: powr_minus_divide powr_realpow [symmetric] rne_def Let_def)

lemma double_round_e: "double_round (5629499534213119 / 562949953421312) = 5629499534213119 / 562949953421312"
  by (subst double_round_exponent [where j = "- 49" and ulp = "1 / 2 ^ 49"])
    (simp_all add: powr_minus_divide powr_realpow [symmetric] rne_def Let_def)

lemmas double_round_values = double_round_0 double_round_half double_round_efloor double_round_di double_round_vx
  double_round_sm double_round_half_di double_round_e_k double_round_w_e double_round_mx
  double_round_vx_sq double_round_s_v double_round_k double_round_half_k double_round_e

lemma flags_thirds:
  "\<not> dfloor_used_out (SingleC2P_IdealMHD_fl double_round u_thirds eos_dyadic w_init False False)"
  "\<not> efloor_used_out (SingleC2P_IdealMHD_fl double_round u_thirds eos_dyadic w_init False False)"
  by (simp_all add: SingleC2P_IdealMHD_fl_def Let_def u_thirds_def eos_dyadic_def SQR_def double_round_values)

lemma round_trip_thirds:
  "round_trip_fl double_round u_thirds eos_dyadic w_init c_init =
    \<lparr>HydCons1D.d = 3, mx = 7 - 1 / 2 ^ 50, my = 0, mz = 0, e = 10 - 1 / 2 ^ 49\<rparr>"
  unfolding round_trip_fl_no_floor(2) [OF flags_thirds]
  by (simp add: u_thirds_def SQR_def double_round_values)


lemma flags_field_exact:
  "\<not> dfloor_used_out (SingleC2P_IdealMHD_fl (\<lambda>x. x) u_field eos_small w_init False False)"
  "\<not> efloor_used_out (SingleC2P_IdealMHD_fl (\<lambda>x. x) u_field eos_small w_init False False)"
  by (simp_all add: SingleC2P_IdealMHD_fl_def Let_def u_field_def eos_small_def SQR_def)

text \<open>
  In binary64 the bound on the energy is below \<open>3e-15\<close>.
\<close>

lemma energy_rounding_bound_double: "energy_rounding_bound (1 / 2 ^ 53) < 3 / 10 ^ 15"
  by (simp add: energy_rounding_bound_def power_divide)

text \<open>
  The binary64 round trip of the state with density 3, which triggers no floor, stays
  within the bounds; and the exact round trip of the magnetised state gives back the
  state.
\<close>

theorem MHD_round_trip_rounded_witness:
  "(\<forall>x. \<bar>double_round x - x\<bar> \<le> 1 / 2 ^ 53 * \<bar>x\<bar>) \<and>
   0 < dfloor eos_dyadic \<and>
   \<not> dfloor_used_out (SingleC2P_IdealMHD_fl double_round u_thirds eos_dyadic w_init False False) \<and>
   \<not> efloor_used_out (SingleC2P_IdealMHD_fl double_round u_thirds eos_dyadic w_init False False) \<and>
   HydCons1D.d (round_trip_fl double_round u_thirds eos_dyadic w_init c_init) = 3 \<and>
   \<bar>HydCons1D.mx (round_trip_fl double_round u_thirds eos_dyadic w_init c_init) - 7\<bar>
     \<le> ((1 + 1 / 2 ^ 53) ^ 3 - 1) * 7 \<and>
   \<bar>HydCons1D.e (round_trip_fl double_round u_thirds eos_dyadic w_init c_init) - 10\<bar>
     \<le> energy_rounding_bound (1 / 2 ^ 53) * (10 + 49 / 6) \<and>
   (\<forall>x :: real. \<bar>x - x\<bar> \<le> 0 * \<bar>x\<bar>) \<and>
   0 < dfloor eos_small \<and>
   \<not> dfloor_used_out (SingleC2P_IdealMHD_fl (\<lambda>x. x) u_field eos_small w_init False False) \<and>
   \<not> efloor_used_out (SingleC2P_IdealMHD_fl (\<lambda>x. x) u_field eos_small w_init False False) \<and>
   HydCons1D.d (round_trip_fl (\<lambda>x. x) u_field eos_small w_init c_init) = 2 \<and>
   HydCons1D.mx (round_trip_fl (\<lambda>x. x) u_field eos_small w_init c_init) = 1 \<and>
   HydCons1D.my (round_trip_fl (\<lambda>x. x) u_field eos_small w_init c_init) = 0 \<and>
   HydCons1D.mz (round_trip_fl (\<lambda>x. x) u_field eos_small w_init c_init) = 0 \<and>
   HydCons1D.e (round_trip_fl (\<lambda>x. x) u_field eos_small w_init c_init) = 10"
proof -
  have a: "0 < dfloor eos_dyadic" by (simp add: eos_dyadic_def)
  have b: "0 < dfloor eos_small" by (simp add: eos_small_def)
  have i: "\<bar>x - x\<bar> \<le> 0 * \<bar>x\<bar>" for x :: real by simp
  have k: "kinetic_energy u_thirds = 49 / 6" "magnetic_energy u_thirds = 0"
    by (simp_all add: kinetic_energy_def magnetic_energy_def u_thirds_def SQR_def)
  have u: "MHDCons1D.d u_thirds = 3" "MHDCons1D.mx u_thirds = 7" "MHDCons1D.e u_thirds = 10"
    by (simp_all add: u_thirds_def)
  have v: "MHDCons1D.d u_field = 2" "MHDCons1D.mx u_field = 1" "MHDCons1D.my u_field = 0"
    "MHDCons1D.mz u_field = 0" "MHDCons1D.e u_field = 10"
    by (simp_all add: u_field_def)
  from MHD_round_trip_rounded [of double_round "1 / 2 ^ 53" eos_dyadic u_thirds w_init c_init,
      OF double_round_error a flags_thirds]
  have 1: "HydCons1D.d (round_trip_fl double_round u_thirds eos_dyadic w_init c_init) = 3"
    "\<bar>HydCons1D.mx (round_trip_fl double_round u_thirds eos_dyadic w_init c_init) - 7\<bar>
       \<le> ((1 + 1 / 2 ^ 53) ^ 3 - 1) * 7"
    "\<bar>HydCons1D.e (round_trip_fl double_round u_thirds eos_dyadic w_init c_init) - 10\<bar>
       \<le> energy_rounding_bound (1 / 2 ^ 53) * (10 + 49 / 6)"
    unfolding k u by simp_all
  from MHD_round_trip_rounded [of "\<lambda>x. x" 0 eos_small u_field w_init c_init,
      OF i b flags_field_exact]
  have 2: "HydCons1D.d (round_trip_fl (\<lambda>x. x) u_field eos_small w_init c_init) = 2"
    "HydCons1D.mx (round_trip_fl (\<lambda>x. x) u_field eos_small w_init c_init) = 1"
    "HydCons1D.my (round_trip_fl (\<lambda>x. x) u_field eos_small w_init c_init) = 0"
    "HydCons1D.mz (round_trip_fl (\<lambda>x. x) u_field eos_small w_init c_init) = 0"
    "HydCons1D.e (round_trip_fl (\<lambda>x. x) u_field eos_small w_init c_init) = 10"
    unfolding v by (simp_all add: energy_rounding_bound_def)
  show ?thesis
    using double_round_error a b flags_thirds flags_field_exact 1 2 by simp
qed

text \<open>
  The claim that the round trip returns exactly the original momentum and energy fails
  in binary64 for the state with density 3, momentum (7, 0, 0), energy 10 and no field,
  which triggers no floor: \<open>di\<close> is \<open>1/3\<close> rounded, \<open>vx = 7 di\<close> is rounded again, and the
  returned momentum \<open>3 vx\<close> is \<open>7 - 2^-50\<close>, the number below 7; the returned energy is
  \<open>10 - 2^-49\<close>.  The momentum goes through one division and two products, so that it is
  the same when products and sums are contracted.
\<close>

theorem MHD_round_trip_counterexample:
  "\<not> dfloor_used_out (SingleC2P_IdealMHD_fl double_round u_thirds eos_dyadic w_init False False) \<and>
   \<not> efloor_used_out (SingleC2P_IdealMHD_fl double_round u_thirds eos_dyadic w_init False False) \<and>
   HydCons1D.mx (round_trip_fl double_round u_thirds eos_dyadic w_init c_init) = 7 - 1 / 2 ^ 50 \<and>
   HydCons1D.e (round_trip_fl double_round u_thirds eos_dyadic w_init c_init) = 10 - 1 / 2 ^ 49 \<and>
   HydCons1D.mx (round_trip_fl double_round u_thirds eos_dyadic w_init c_init)
     \<noteq> MHDCons1D.mx u_thirds \<and>
   HydCons1D.e (round_trip_fl double_round u_thirds eos_dyadic w_init c_init)
     \<noteq> MHDCons1D.e u_thirds"
  using flags_thirds unfolding round_trip_thirds by (simp add: u_thirds_def)

section \<open>The energy floors and the conserved energy\<close>

lemma SRMHD_primitives_flag:
  "fst (snd (SRMHD_primitives u eos b2 rpar r q bx' by' bz' mu w True))"
  by (simp add: SRMHD_primitives_def Let_def split_def)

lemma srmhd_efloor_used_out:
  "\<exists>b2' rpar' r q bx' by' bz' mu.
     efloor_used_out (SingleC2P_IdealSRMHD u eos s2 b2 rpar w df ef mi) =
       fst (snd (SRMHD_primitives (u_out (SingleC2P_IdealSRMHD u eos s2 b2 rpar w df ef mi))
              eos b2' rpar' r q bx' by' bz' mu w (snd (snd (SRMHD_floors u eos b2 df ef)))))"
  unfolding SingleC2P_IdealSRMHD_def Let_def split_def
  by (simp only: C2P_out.simps SRMHD_out.simps) blast

lemma mhd_efloor:
  assumes "efloor_triggers_MHD u eos"
  shows "efloor_used_out (SingleC2P_IdealMHD u eos w df ef)"
    and "HydPrim1D.e (w_out (SingleC2P_IdealMHD u eos w df ef)) = pfloor eos / (gamma eos - 1)"
  using assms
  by (cases "MHDCons1D.d u < dfloor eos";
      simp add: SingleC2P_IdealMHD_def efloor_triggers_MHD_def kinetic_energy_def
        magnetic_energy_def Let_def)+

lemma mhd_energies_out:
  "kinetic_energy (u_out (SingleC2P_IdealMHD u eos w df ef)) =
     kinetic_energy (if MHDCons1D.d u < dfloor eos then u\<lparr>MHDCons1D.d := dfloor eos\<rparr> else u)"
  "magnetic_energy (u_out (SingleC2P_IdealMHD u eos w df ef)) = magnetic_energy u"
  by (simp_all add: mhd_u_out kinetic_energy_def magnetic_energy_def Let_def)

text \<open>
  C1, as the code has it.  When the energy floor of \<^verbatim>\<open>SingleC2P_IdealMHD\<close>
  triggers, the flag is set, the returned internal energy is the floor
  \<open>pfloor/(gamma - 1)\<close>, and the conserved energy at exit is that internal energy plus the
  kinetic plus the magnetic energy of the conserved state at exit.  In
  \<^verbatim>\<open>SingleC2P_IdealSRMHD\<close> the floor at entry, when it triggers, sets the flag and
  stores \<open>pfloor/(gamma - 1) + 0.5 b2\<close> in the conserved energy, with no kinetic term;
  when it does not trigger, the conserved energy at exit is the one at entry, whatever
  the floor after the loops does.
\<close>

theorem energy_floor_correction:
  "(efloor_triggers_MHD u eos \<longrightarrow>
      efloor_used_out (SingleC2P_IdealMHD u eos w df ef) \<and>
      HydPrim1D.e (w_out (SingleC2P_IdealMHD u eos w df ef)) = pfloor eos / (gamma eos - 1) \<and>
      MHDCons1D.e (u_out (SingleC2P_IdealMHD u eos w df ef)) =
        HydPrim1D.e (w_out (SingleC2P_IdealMHD u eos w df ef)) +
        kinetic_energy (u_out (SingleC2P_IdealMHD u eos w df ef)) +
        magnetic_energy (u_out (SingleC2P_IdealMHD u eos w df ef))) \<and>
   (efloor_triggers_SRMHD u eos b2 \<longrightarrow>
      efloor_used_out (SingleC2P_IdealSRMHD u eos s2 b2 rpar w df ef mi) \<and>
      MHDCons1D.e (u_out (SingleC2P_IdealSRMHD u eos s2 b2 rpar w df ef mi)) =
        pfloor eos / (gamma eos - 1) + 0.5 * b2) \<and>
   (\<not> efloor_triggers_SRMHD u eos b2 \<longrightarrow>
      MHDCons1D.e (u_out (SingleC2P_IdealSRMHD u eos s2 b2 rpar w df ef mi)) = MHDCons1D.e u)"
proof (intro conjI impI)
  assume t: "efloor_triggers_MHD u eos"
  show "efloor_used_out (SingleC2P_IdealMHD u eos w df ef)"
    and w: "HydPrim1D.e (w_out (SingleC2P_IdealMHD u eos w df ef)) = pfloor eos / (gamma eos - 1)"
    using t by (rule mhd_efloor)+
  show "MHDCons1D.e (u_out (SingleC2P_IdealMHD u eos w df ef)) =
        HydPrim1D.e (w_out (SingleC2P_IdealMHD u eos w df ef)) +
        kinetic_energy (u_out (SingleC2P_IdealMHD u eos w df ef)) +
        magnetic_energy (u_out (SingleC2P_IdealMHD u eos w df ef))"
    unfolding w mhd_energies_out
    using t by (simp add: mhd_u_out efloor_triggers_MHD_def magnetic_energy_def Let_def)
next
  assume t: "efloor_triggers_SRMHD u eos b2"
  then have "snd (snd (SRMHD_floors u eos b2 df ef))"
    by (simp add: SRMHD_floors_eq efloor_triggers_SRMHD_def)
  with srmhd_efloor_used_out [of u eos s2 b2 rpar w df ef mi]
  show "efloor_used_out (SingleC2P_IdealSRMHD u eos s2 b2 rpar w df ef mi)"
    by (auto simp: SRMHD_primitives_flag)
  show "MHDCons1D.e (u_out (SingleC2P_IdealSRMHD u eos s2 b2 rpar w df ef mi)) =
        pfloor eos / (gamma eos - 1) + 0.5 * b2"
    using t by (simp add: srmhd_u_out SRMHD_floors_eq efloor_triggers_SRMHD_def)
next
  assume "\<not> efloor_triggers_SRMHD u eos b2"
  then show "MHDCons1D.e (u_out (SingleC2P_IdealSRMHD u eos s2 b2 rpar w df ef mi)) = MHDCons1D.e u"
    by (simp add: srmhd_u_out SRMHD_floors_eq efloor_triggers_SRMHD_def)
qed

text \<open>The magnetised state with too small an energy, in both converters, and the one
  above the floors.\<close>

theorem energy_floor_correction_witness:
  "efloor_triggers_MHD u_lowe eos_small \<and>
   efloor_used_out (SingleC2P_IdealMHD u_lowe eos_small w_init False False) \<and>
   HydPrim1D.e (w_out (SingleC2P_IdealMHD u_lowe eos_small w_init False False)) = 3 / (2 * 10 ^ 10) \<and>
   MHDCons1D.e (u_out (SingleC2P_IdealMHD u_lowe eos_small w_init False False)) =
     3 / (2 * 10 ^ 10) + 1 / 4 + 1 / 2 \<and>
   efloor_triggers_SRMHD u_lowe eos_small 1 \<and>
   efloor_used_out (SingleC2P_IdealSRMHD u_lowe eos_small 1 1 (1 / 2) w_init False False 0) \<and>
   MHDCons1D.e (u_out (SingleC2P_IdealSRMHD u_lowe eos_small 1 1 (1 / 2) w_init False False 0)) =
     3 / (2 * 10 ^ 10) + 1 / 2 \<and>
   \<not> efloor_triggers_SRMHD u_field eos_small 1 \<and>
   MHDCons1D.e (u_out (SingleC2P_IdealSRMHD u_field eos_small 1 1 (1 / 2) w_init False False 0)) = 10"
proof -
  have a: "efloor_triggers_MHD u_lowe eos_small"
    by (simp add: efloor_triggers_MHD_def kinetic_energy_def magnetic_energy_def SQR_def
        u_lowe_def eos_small_def)
  have b: "efloor_triggers_SRMHD u_lowe eos_small 1"
    by (simp add: efloor_triggers_SRMHD_def u_lowe_def eos_small_def)
  have c: "\<not> efloor_triggers_SRMHD u_field eos_small 1"
    by (simp add: efloor_triggers_SRMHD_def u_field_def eos_small_def)
  have k: "kinetic_energy (u_out (SingleC2P_IdealMHD u_lowe eos_small w_init False False)) = 1 / 4"
    "magnetic_energy (u_out (SingleC2P_IdealMHD u_lowe eos_small w_init False False)) = 1 / 2"
    unfolding mhd_energies_out
    by (simp_all add: kinetic_energy_def magnetic_energy_def SQR_def u_lowe_def eos_small_def)
  have p: "pfloor eos_small / (gamma eos_small - 1) = 3 / (2 * 10 ^ 10)"
    by (simp add: eos_small_def)
  have e: "MHDCons1D.e u_field = 10" by (simp add: u_field_def)
  show ?thesis
    using a b c
      energy_floor_correction [of u_lowe eos_small w_init False False 1 1 "1 / 2" 0]
      energy_floor_correction [of u_field eos_small w_init False False 1 1 "1 / 2" 0]
    by (simp add: k p e)
qed

text \<open>The cold fluid with an energy below the floor at entry: the floor stores 0, and both
  loops stop as for the cold fluid itself.\<close>

lemma floors_cold_low:
  "SRMHD_floors u_cold_low eos_cold 0 df ef = (u_cold_low\<lparr>MHDCons1D.e := 0\<rparr>, df, True)"
  by (simp add: SRMHD_floors_def u_cold_low_def eos_cold_def)

lemma Equation44_cold_low_0: "Equation44 0 0 0 (3 / 4) 0 1 eos_cold = - 1"
  by (simp add: Equation44_def Let_def eos_cold_def SQR_def)

lemma Equation44_cold_low_z: "Equation44 (4 / 5) 0 0 (3 / 4) 0 1 eos_cold = 0"
  by (simp add: Equation44_def Let_def eos_cold_def SQR_def sqrt_25_16)

lemma phase2_cold_low:
  "false_position_phase (\<lambda>z. Equation44 z 0 0 (3 / 4) 0 1 eos_cold) 0 (4 / 5) = (0, 4 / 5, 1)"
  by (simp add: false_position_phase_def Equation44_cold_low_0 Equation44_cold_low_z Let_def
      tol_def max_iterations_def false_position.simps)

lemma primitives_cold_low:
  "SRMHD_primitives (u_cold_low\<lparr>MHDCons1D.e := 0\<rparr>) eos_cold 0 0 (3 / 4) 0 0 0 0 (4 / 5)
      w_init True =
    (\<lparr>HydPrim1D.d = 4 / 5, vx = 3 / 4, vy = 0, vz = 0, e = 0\<rparr>, True, 5 / 4)"
  by (simp add: SRMHD_primitives_def Let_def SQR_def sqrt_25_16 eos_cold_def u_cold_low_def
      w_init_def)

lemma run_cold_low:
  "SingleC2P_IdealSRMHD u_cold_low eos_cold (9 / 16) 0 0 w_init False False 0 =
    \<lparr>u_out = u_cold_low\<lparr>MHDCons1D.e := 0\<rparr>,
     w_out = \<lparr>HydPrim1D.d = 4 / 5, vx = 3 / 4, vy = 0, vz = 0, e = 0\<rparr>,
     dfloor_used_out = False, efloor_used_out = True, max_iter_out = 0,
     mu_out = 4 / 5, lor_out = 5 / 4, iter1 = 0, trips1 = 1, iter2 = 0, trips2 = 1\<rparr>"
proof -
  have u: "MHDCons1D.d u_cold_low = 1" "MHDCons1D.bx u_cold_low = 0"
    "MHDCons1D.by u_cold_low = 0" "MHDCons1D.bz u_cold_low = 0"
    by (simp_all add: u_cold_low_def)
  show ?thesis
    by (simp add: SingleC2P_IdealSRMHD_def floors_cold_low u sqrt_9_16 phase1_cold
        phase2_cold_low primitives_cold_low)
qed

text \<open>
  The claim that the conserved energy at exit is the floored internal energy plus the
  kinetic plus the magnetic energy whenever an energy floor triggers fails for
  \<^verbatim>\<open>SingleC2P_IdealSRMHD\<close>: for the cold fluid with energy -1 the floor at entry
  triggers, the returned fluid moves (\<open>vx = 3/4\<close>), and the conserved energy at exit is
  the returned internal energy alone.
\<close>

theorem energy_floor_correction_counterexample:
  "efloor_triggers_SRMHD u_cold_low eos_cold 0 \<and>
   efloor_used_out (SingleC2P_IdealSRMHD u_cold_low eos_cold (9 / 16) 0 0 w_init False False 0) \<and>
   HydPrim1D.vx (w_out (SingleC2P_IdealSRMHD u_cold_low eos_cold (9 / 16) 0 0 w_init False False 0))
     = 3 / 4 \<and>
   MHDCons1D.e (u_out (SingleC2P_IdealSRMHD u_cold_low eos_cold (9 / 16) 0 0 w_init False False 0))
     = HydPrim1D.e (w_out (SingleC2P_IdealSRMHD u_cold_low eos_cold (9 / 16) 0 0 w_init False False 0)) \<and>
   MHDCons1D.e (u_out (SingleC2P_IdealSRMHD u_cold_low eos_cold (9 / 16) 0 0 w_init False False 0))
     \<noteq> HydPrim1D.e (w_out (SingleC2P_IdealSRMHD u_cold_low eos_cold (9 / 16) 0 0 w_init False False 0))
       + kinetic_energy (u_out (SingleC2P_IdealSRMHD u_cold_low eos_cold (9 / 16) 0 0 w_init False False 0))
       + magnetic_energy (u_out (SingleC2P_IdealSRMHD u_cold_low eos_cold (9 / 16) 0 0 w_init False False 0))"
  unfolding run_cold_low
  by (simp add: efloor_triggers_SRMHD_def kinetic_energy_def magnetic_energy_def SQR_def
      u_cold_low_def eos_cold_def)

section \<open>The iteration bound\<close>

text \<open>
  The loop is defined with a termination proof: the distance of the counter from its
  limit decreases with every pass.  Along the recursion the counter never decreases and
  never passes the limit, and the number of passes grows by at most that distance.
\<close>

lemma false_position_count:
  "false_position func iterations iter zm zp fm fp z trips = (iter', z', trips') \<Longrightarrow>
    iter \<le> iter' \<and> iter' \<le> max iter iterations \<and>
    trips \<le> trips' \<and> int trips' \<le> int trips + max 0 (iterations - iter)"
proof (induction func iterations iter zm zp fm fp z trips rule: false_position.induct)
  case (1 func iterations iter zm zp fm fp z trips)
  show ?case
  proof (cases "iter < iterations")
    case False
    with "1.prems" show ?thesis
      by (simp add: false_position.simps [of func iterations iter])
  next
    case True
    define z1 where "z1 = (zm * fp - zp * fm) / (fp - fm)"
    define f where "f = func z1"
    show ?thesis
    proof (cases "\<bar>zm - zp\<bar> < tol \<or> \<bar>f\<bar> < tol")
      case stop: True
      with True "1.prems" show ?thesis
        by (auto simp: false_position.simps [of func iterations iter] Let_def z1_def f_def)
    next
      case go: False
      show ?thesis
      proof (cases "f * fp < 0")
        case neg: True
        with True go "1.prems"
        have "false_position func iterations (iter + 1) zp z1 fp f z1 (Suc trips) = (iter', z', trips')"
          by (simp add: false_position.simps [of func iterations iter] Let_def z1_def f_def)
        from "1.IH"(1) [OF True z1_def f_def go neg this] True
        show ?thesis by auto
      next
        case pos: False
        with True go "1.prems"
        have "false_position func iterations (iter + 1) zm z1 (0.5 * fm) f z1 (Suc trips)
            = (iter', z', trips')"
          by (simp add: false_position.simps [of func iterations iter] Let_def z1_def f_def)
        from "1.IH"(2) [OF True z1_def f_def go pos this] True
        show ?thesis by auto
      qed
    qed
  qed
qed

lemma false_position_phase_count:
  assumes "false_position_phase func zm zp = (iter', z', trips')"
  shows "0 \<le> iter' \<and> iter' \<le> 25 \<and> trips' \<le> 25"
proof -
  obtain iterations fm fp z where
    r: "false_position func iterations 0 zm zp fm fp z 0 = (iter', z', trips')"
    and i: "iterations = - 1 \<or> iterations = 25"
    using assms
    by (auto simp: false_position_phase_def Let_def max_iterations_def split: if_splits)
  from false_position_count [OF r] i show ?thesis by auto
qed

lemma srmhd_phases:
  "\<exists>f1 f2 zp.
     iter1 (SingleC2P_IdealSRMHD u eos s2 b2 rpar w df ef mi) =
       fst (false_position_phase f1 0 1) \<and>
     trips1 (SingleC2P_IdealSRMHD u eos s2 b2 rpar w df ef mi) =
       snd (snd (false_position_phase f1 0 1)) \<and>
     iter2 (SingleC2P_IdealSRMHD u eos s2 b2 rpar w df ef mi) =
       fst (false_position_phase f2 0 zp) \<and>
     trips2 (SingleC2P_IdealSRMHD u eos s2 b2 rpar w df ef mi) =
       snd (snd (false_position_phase f2 0 zp))"
  unfolding SingleC2P_IdealSRMHD_def Let_def split_def
  by (simp only: C2P_out.simps SRMHD_out.simps) blast

lemma srmhd_max_iter_out:
  "max_iter_out (SingleC2P_IdealSRMHD u eos s2 b2 rpar w df ef mi) =
    max (iter2 (SingleC2P_IdealSRMHD u eos s2 b2 rpar w df ef mi))
      (max (iter1 (SingleC2P_IdealSRMHD u eos s2 b2 rpar w df ef mi)) mi)"
  unfolding SingleC2P_IdealSRMHD_def Let_def split_def
  by (simp only: C2P_out.simps SRMHD_out.simps) (simp add: max_def)

text \<open>
  C4.  For every input, each of the two loops of \<^verbatim>\<open>SingleC2P_IdealSRMHD\<close> (the
  bracket search on \<open>Equation49\<close> and the root refinement on \<open>Equation44\<close>) executes its
  body at most 25 times, so both together at most 50 times; the loop counters end between
  0 and 25, and the running maximum left in \<open>max_iter\<close> is the one at entry unless a
  counter exceeds it, hence at most the larger of the one at entry and 25.  Both loops
  terminate: the model is a total function.
\<close>

theorem iteration_bound:
  "trips1 (SingleC2P_IdealSRMHD u eos s2 b2 rpar w df ef mi) \<le> 25 \<and>
   trips2 (SingleC2P_IdealSRMHD u eos s2 b2 rpar w df ef mi) \<le> 25 \<and>
   trips1 (SingleC2P_IdealSRMHD u eos s2 b2 rpar w df ef mi) +
     trips2 (SingleC2P_IdealSRMHD u eos s2 b2 rpar w df ef mi) \<le> 50 \<and>
   0 \<le> iter1 (SingleC2P_IdealSRMHD u eos s2 b2 rpar w df ef mi) \<and>
   iter1 (SingleC2P_IdealSRMHD u eos s2 b2 rpar w df ef mi) \<le> 25 \<and>
   0 \<le> iter2 (SingleC2P_IdealSRMHD u eos s2 b2 rpar w df ef mi) \<and>
   iter2 (SingleC2P_IdealSRMHD u eos s2 b2 rpar w df ef mi) \<le> 25 \<and>
   mi \<le> max_iter_out (SingleC2P_IdealSRMHD u eos s2 b2 rpar w df ef mi) \<and>
   max_iter_out (SingleC2P_IdealSRMHD u eos s2 b2 rpar w df ef mi) \<le> max mi 25"
proof -
  from srmhd_phases [of u eos s2 b2 rpar w df ef mi] obtain f1 f2 zp where
    p: "iter1 (SingleC2P_IdealSRMHD u eos s2 b2 rpar w df ef mi) =
          fst (false_position_phase f1 0 1)"
       "trips1 (SingleC2P_IdealSRMHD u eos s2 b2 rpar w df ef mi) =
          snd (snd (false_position_phase f1 0 1))"
       "iter2 (SingleC2P_IdealSRMHD u eos s2 b2 rpar w df ef mi) =
          fst (false_position_phase f2 0 zp)"
       "trips2 (SingleC2P_IdealSRMHD u eos s2 b2 rpar w df ef mi) =
          snd (snd (false_position_phase f2 0 zp))"
    by blast
  have "false_position_phase f1 0 1 =
      (fst (false_position_phase f1 0 1), fst (snd (false_position_phase f1 0 1)),
       snd (snd (false_position_phase f1 0 1)))"
    and "false_position_phase f2 0 zp =
      (fst (false_position_phase f2 0 zp), fst (snd (false_position_phase f2 0 zp)),
       snd (snd (false_position_phase f2 0 zp)))"
    by simp_all
  from false_position_phase_count [OF this(1)] false_position_phase_count [OF this(2)]
  show ?thesis
    unfolding srmhd_max_iter_out p by linarith
qed

section \<open>The master functions\<close>

lemma Equation49_0: "Equation49 0 b2 rp r q = - 1"
  by (simp add: Equation49_def)

lemma Equation49_1:
  assumes "0 \<le> b2"
  shows "0 \<le> Equation49 1 b2 rp r q"
proof -
  define x where "x = 1 / (1 + b2)"
  define rbar where "rbar = x * x * r * r + x * (1 + x) * rp * rp"
  have x: "0 < x" using assms by (simp add: x_def)
  have e: "Equation49 1 b2 rp r q = sqrt (1 + rbar) - 1"
    by (simp add: Equation49_def Let_def x_def rbar_def)
  have a: "x * x * r * r = (x * r)\<^sup>2" "x * (1 + x) * rp * rp = x * (1 + x) * rp\<^sup>2"
    by (simp_all add: power2_eq_square)
  have nn: "0 \<le> (x * r)\<^sup>2" "0 \<le> x * (1 + x) * rp\<^sup>2"
    using x by simp_all
  have "0 \<le> rbar"
    unfolding rbar_def a using nn by linarith
  then show ?thesis by (simp add: e)
qed

text \<open>
  C5, as the code has it.  For a conserved state after the floors (\<open>u.d \<ge> dfloor > 0\<close>,
  \<open>u.e \<ge> pfloor/(gamma - 1) + 0.5 b2\<close>) and \<open>b2 \<ge> 0\<close>, the bracket function is -1 at
  \<open>mu = 0\<close> and not negative at \<open>mu = 1\<close>: the two values never have the same sign, and
  their product is not positive.  The value at \<open>mu = 1\<close> can be zero.
\<close>

theorem bracket_signs:
  assumes "0 < dfloor eos" and "dfloor eos \<le> MHDCons1D.d u"
    and "pfloor eos / (gamma eos - 1) + 0.5 * b2 \<le> MHDCons1D.e u" and "0 \<le> b2"
  shows "fst (bracket_values u s2 b2 rpar) = - 1 \<and>
    0 \<le> snd (bracket_values u s2 b2 rpar) \<and>
    fst (bracket_values u s2 b2 rpar) * snd (bracket_values u s2 b2 rpar) \<le> 0"
proof -
  from assms(1,2) have d: "0 < MHDCons1D.d u" by simp
  with assms(4) have b: "0 \<le> b2 / MHDCons1D.d u" by simp
  have f: "fst (bracket_values u s2 b2 rpar) = - 1"
    by (simp add: bracket_values_def Let_def Equation49_0)
  have s: "snd (bracket_values u s2 b2 rpar) =
      Equation49 1 (b2 / MHDCons1D.d u) (rpar * (1 / sqrt (MHDCons1D.d u)))
        (sqrt s2 / MHDCons1D.d u) (MHDCons1D.e u / MHDCons1D.d u)"
    by (simp add: bracket_values_def Let_def)
  have p: "0 \<le> snd (bracket_values u s2 b2 rpar)"
    unfolding s by (rule Equation49_1 [OF b])
  show ?thesis
    using p by (simp add: f)
qed

text \<open>The magnetised moving state.\<close>

theorem bracket_signs_witness:
  "0 < dfloor eos_small \<and> dfloor eos_small \<le> MHDCons1D.d u_field \<and>
   pfloor eos_small / (gamma eos_small - 1) + 0.5 * 1 \<le> MHDCons1D.e u_field \<and>
   (0 :: real) \<le> 1 \<and>
   fst (bracket_values u_field 1 1 (1 / 2)) = - 1 \<and>
   0 \<le> snd (bracket_values u_field 1 1 (1 / 2)) \<and>
   fst (bracket_values u_field 1 1 (1 / 2)) * snd (bracket_values u_field 1 1 (1 / 2)) \<le> 0"
proof -
  have a: "0 < dfloor eos_small" "dfloor eos_small \<le> MHDCons1D.d u_field"
    "pfloor eos_small / (gamma eos_small - 1) + 0.5 * 1 \<le> MHDCons1D.e u_field"
    "(0 :: real) \<le> 1"
    by (simp_all add: eos_small_def u_field_def)
  show ?thesis
    using a bracket_signs [OF a, of 1 "1 / 2"] by simp
qed

text \<open>
  The claim that the two values have opposite signs or the bracket is within the
  tolerance fails for the static fluid of the specification's scenario, an admissible
  state: the values are -1 and 0, their product is not negative, and neither tolerance
  test holds.  Every number of this evaluation is 0, 1 or -1, so that rounding does not
  enter.
\<close>

theorem bracket_signs_counterexample:
  "0 < dfloor eos_small \<and> dfloor eos_small \<le> MHDCons1D.d (static_fluid (3 / 2)) \<and>
   pfloor eos_small / (gamma eos_small - 1) + 0.5 * 0 \<le> MHDCons1D.e (static_fluid (3 / 2)) \<and>
   (0 :: real) \<le> 0 \<and>
   \<not> (fst (bracket_values (static_fluid (3 / 2)) 0 0 0) *
        snd (bracket_values (static_fluid (3 / 2)) 0 0 0) < 0) \<and>
   \<not> (\<bar>0 - 1 :: real\<bar> < tol) \<and>
   \<not> (\<bar>fst (bracket_values (static_fluid (3 / 2)) 0 0 0)\<bar> +
        \<bar>snd (bracket_values (static_fluid (3 / 2)) 0 0 0)\<bar> < 2 * tol)"
  by (simp add: bracket_values_def Equation49_def static_fluid_def eos_small_def tol_def)

lemma Equation44_locals:
  "Equation44 mu b2 rpar r q u_d eos =
    mu - 1 / ((1 + gamma eos *
                 max (Equation44_eps mu b2 rpar r q)
                     (pfloor eos / (u_d / Equation44_w mu b2 rpar r * (gamma eos - 1))))
              / Equation44_w mu b2 rpar r
              + Equation44_rbar mu b2 rpar r * mu)"
  by (simp add: Equation44_def Equation44_eps_def Equation44_w_def Equation44_rbar_def Let_def
      max.commute)

lemma Equation44_locals_cold:
  "Equation44_rbar (4 / 5) 0 0 (3 / 4) = 9 / 16"
  "Equation44_w (4 / 5) 0 0 (3 / 4) = 5 / 4"
  "Equation44_eps (4 / 5) 0 0 (3 / 4) 0 = - 5 / 16"
  by (simp_all add: Equation44_eps_def Equation44_w_def Equation44_rbar_def Let_def SQR_def
      sqrt_25_16)

text \<open>
  C7.  At every argument, the value of \<open>Equation44\<close> is \<open>mu - 1/(h/w + rbar mu)\<close> with
  \<open>h = 1 + gamma eps\<close>, where \<open>eps\<close> is the larger of the specific internal energy at
  \<open>mu\<close> and \<open>pfloor/((u_d/w) (gamma - 1))\<close>, the floor at the rest-frame density \<open>u_d/w\<close>
  implied at that \<open>mu\<close>.  The floor acts inside the evaluation: for the cold fluid at
  \<open>mu = 4/5\<close> the value of \<open>Equation44\<close> is not the one the formula gives without the
  floor.
\<close>

theorem master_function_floor:
  "Equation44 mu b2 rpar r q u_d eos =
    mu - 1 / ((1 + gamma eos *
                 max (Equation44_eps mu b2 rpar r q)
                     (pfloor eos / (u_d / Equation44_w mu b2 rpar r * (gamma eos - 1))))
              / Equation44_w mu b2 rpar r
              + Equation44_rbar mu b2 rpar r * mu) \<and>
   Equation44 (4 / 5) 0 0 (3 / 4) 0 1 eos_cold \<noteq>
    4 / 5 - 1 / ((1 + gamma eos_cold * Equation44_eps (4 / 5) 0 0 (3 / 4) 0)
              / Equation44_w (4 / 5) 0 0 (3 / 4)
              + Equation44_rbar (4 / 5) 0 0 (3 / 4) * (4 / 5))"
proof
  show "Equation44 mu b2 rpar r q u_d eos =
    mu - 1 / ((1 + gamma eos *
                 max (Equation44_eps mu b2 rpar r q)
                     (pfloor eos / (u_d / Equation44_w mu b2 rpar r * (gamma eos - 1))))
              / Equation44_w mu b2 rpar r
              + Equation44_rbar mu b2 rpar r * mu)"
    by (rule Equation44_locals)
  show "Equation44 (4 / 5) 0 0 (3 / 4) 0 1 eos_cold \<noteq>
    4 / 5 - 1 / ((1 + gamma eos_cold * Equation44_eps (4 / 5) 0 0 (3 / 4) 0)
              / Equation44_w (4 / 5) 0 0 (3 / 4)
              + Equation44_rbar (4 / 5) 0 0 (3 / 4) * (4 / 5))"
    unfolding Equation44_cold_low_z Equation44_locals_cold
    by (simp add: eos_cold_def)
qed

section \<open>The static fluid\<close>

text \<open>
  For a fluid at rest without a magnetic field both master functions are linear in \<open>mu\<close>,
  so each loop reaches its root in its first pass: \<open>mu = 1\<close> for the bracket function and
  \<open>mu = 1/h\<close> for the master function, with \<open>h\<close> the specific enthalpy.
\<close>

lemma Equation49_static: "Equation49 mu 0 0 0 q = mu - 1"
  by (simp add: Equation49_def)

lemma phase1_static:
  "false_position_phase (\<lambda>z. Equation49 z 0 0 0 q) 0 1 = (0, 1, 1)"
  by (simp add: false_position_phase_def Equation49_static Let_def tol_def max_iterations_def
      false_position.simps)

lemma Equation44_static:
  "Equation44 mu 0 0 0 q 1 eos = mu - 1 / (1 + gamma eos * max (pfloor eos / (gamma eos - 1)) q)"
  by (simp add: Equation44_def Let_def SQR_def)

lemma phase2_linear:
  assumes "1 < h"
  shows "false_position_phase (\<lambda>z. z - 1 / h) 0 1 = (0, 1 / h, 1)"
proof -
  from assms have h: "0 < 1 / h" "1 / h < 1" by simp_all
  then have a: "\<bar>0 - 1 / h\<bar> + \<bar>1 - 1 / h\<bar> = 1" by simp
  have t: "\<not> (1 :: real) < 2 * tol" "\<not> (1 :: real) < tol" "0 < tol" by (simp_all add: tol_def)
  have z: "(0 * (1 - 1 / h) - 1 * (0 - 1 / h)) / (1 - 1 / h - (0 - 1 / h)) = 1 / h"
    by simp
  show ?thesis
    unfolding false_position_phase_def Let_def a
    by (simp add: t max_iterations_def false_position.simps [of _ 25 0] z Let_def)
qed

lemma primitives_static:
  assumes "1 < gamma eos" and "pfloor eos / (gamma eos - 1) < q" and "0 \<le> pfloor eos"
  shows "SRMHD_primitives (static_fluid e0) eos 0 0 0 q 0 0 0 mu w ef =
    (\<lparr>HydPrim1D.d = 1, vx = 0, vy = 0, vz = 0, e = q\<rparr>, ef, 1)"
  using assms
  by (cases w) (simp add: SRMHD_primitives_def Let_def SQR_def static_fluid_def)

text \<open>
  C6.  For the static fluid (\<open>d = 1\<close>, no momentum, no magnetic field, so \<open>s2\<close>, \<open>b2\<close> and
  \<open>rpar\<close> are 0), \<open>gamma = 5/3\<close> and the conserved energy \<open>p/(gamma - 1)\<close> of a pressure
  \<open>p\<close> above the pressure floor, with floors as the data model has them below the state
  (\<open>dfloor \<le> 1\<close>, \<open>pfloor \<ge> 0\<close>), \<^verbatim>\<open>SingleC2P_IdealSRMHD\<close> returns the velocity
  \<open>(0, 0, 0)\<close>, the primitive density 1 and the internal energy density \<open>p/(gamma - 1)\<close>.
\<close>

theorem static_fluid_primitives:
  assumes "gamma eos = 5 / 3" and "dfloor eos \<le> 1" and "0 \<le> pfloor eos" and "pfloor eos < p"
  shows "w_out (SingleC2P_IdealSRMHD (static_fluid (p / (gamma eos - 1))) eos 0 0 0 w df ef mi)
    = \<lparr>HydPrim1D.d = 1, vx = 0, vy = 0, vz = 0, e = p / (gamma eos - 1)\<rparr>"
proof -
  define q where "q = p / (gamma eos - 1)"
  define h where "h = 1 + gamma eos * q"
  have g: "1 < gamma eos" unfolding assms(1) by simp
  have gm: "gamma eos - 1 = 2 / 3" unfolding assms(1) by simp
  have fl: "pfloor eos / (gamma eos - 1) < q"
    unfolding q_def gm using assms(4) by simp
  have q0: "0 < q" unfolding q_def gm using assms(3,4) by simp
  have h1: "1 < h" unfolding h_def assms(1) using q0 by simp
  have floors: "SRMHD_floors (static_fluid q) eos 0 df ef = (static_fluid q, df, ef)"
    using assms(2) fl by (simp add: SRMHD_floors_eq static_fluid_def)
  have u: "MHDCons1D.d (static_fluid q) = 1" "MHDCons1D.e (static_fluid q) = q"
    "MHDCons1D.bx (static_fluid q) = 0" "MHDCons1D.by (static_fluid q) = 0"
    "MHDCons1D.bz (static_fluid q) = 0"
    by (simp_all add: static_fluid_def)
  have m: "max (pfloor eos / (gamma eos - 1)) q = q" using fl by simp
  have p2: "false_position_phase (\<lambda>z. Equation44 z 0 0 0 q 1 eos) 0 1 = (0, 1 / h, 1)"
    unfolding Equation44_static m h_def [symmetric] by (rule phase2_linear [OF h1])
  show ?thesis
    unfolding q_def [symmetric]
    by (simp add: SingleC2P_IdealSRMHD_def floors u phase1_static p2
        primitives_static [OF g fl assms(3)])
qed

text \<open>The pressure \<open>p = 1\<close> and the small floors.\<close>

theorem static_fluid_primitives_witness:
  "gamma eos_small = 5 / 3 \<and> dfloor eos_small \<le> 1 \<and> 0 \<le> pfloor eos_small \<and>
   pfloor eos_small < 1 \<and>
   w_out (SingleC2P_IdealSRMHD (static_fluid (3 / 2)) eos_small 0 0 0 w_init False False 0)
     = \<lparr>HydPrim1D.d = 1, vx = 0, vy = 0, vz = 0, e = 3 / 2\<rparr>"
proof -
  have a: "gamma eos_small = 5 / 3" "dfloor eos_small \<le> 1" "0 \<le> pfloor eos_small"
    "pfloor eos_small < 1"
    by (simp_all add: eos_small_def)
  have e: "1 / (gamma eos_small - 1) = 3 / 2"
    by (simp add: eos_small_def)
  show ?thesis
    using a static_fluid_primitives [OF a, of w_init False False 0] unfolding e by simp
qed

section \<open>The range of the root variable\<close>

text \<open>
  The point that the loop interpolates lies between the ends of the bracket as long as the
  two function values it keeps have opposite signs, and the loop keeps them so: it either
  moves the bracket to the side of the sign change or halves the value at the end it
  keeps.  So a phase that starts from a bracket whose end values do not have the same
  sign returns a point of that bracket.
\<close>

lemma interpolation_between:
  fixes zm zp fm fp lo hi :: real
  assumes s: "fm * fp < 0" and b: "lo \<le> zm" "zm \<le> hi" "lo \<le> zp" "zp \<le> hi"
  shows "lo \<le> (zm * fp - zp * fm) / (fp - fm) \<and> (zm * fp - zp * fm) / (fp - fm) \<le> hi"
proof -
  from s consider "fm < 0" "0 < fp" | "0 < fm" "fp < 0"
    by (auto simp: mult_less_0_iff)
  then show ?thesis
  proof cases
    case 1
    then have d: "0 < fp - fm" by simp
    have "0 \<le> (zm - lo) * fp" "(zp - lo) * fm \<le> 0" "0 \<le> (hi - zm) * fp" "(hi - zp) * fm \<le> 0"
      using 1 b by (simp_all add: mult_nonneg_nonpos mult_nonpos_nonneg)
    then have "lo * (fp - fm) \<le> zm * fp - zp * fm" "zm * fp - zp * fm \<le> hi * (fp - fm)"
      by (simp_all add: algebra_simps)
    with d show ?thesis by (simp add: pos_le_divide_eq pos_divide_le_eq)
  next
    case 2
    then have d: "fp - fm < 0" by simp
    have "(zm - lo) * fp \<le> 0" "0 \<le> (zp - lo) * fm" "(hi - zm) * fp \<le> 0" "0 \<le> (hi - zp) * fm"
      using 2 b by (simp_all add: mult_nonneg_nonpos mult_nonpos_nonneg)
    then have "zm * fp - zp * fm \<le> lo * (fp - fm)" "hi * (fp - fm) \<le> zm * fp - zp * fm"
      by (simp_all add: algebra_simps)
    with d show ?thesis by (simp add: neg_le_divide_eq neg_divide_le_eq)
  qed
qed

lemma tol_pos: "0 < tol"
  by (simp add: tol_def)

lemma false_position_between:
  "fm * fp < 0 \<Longrightarrow> lo \<le> zm \<Longrightarrow> zm \<le> hi \<Longrightarrow> lo \<le> zp \<Longrightarrow> zp \<le> hi \<Longrightarrow> lo \<le> z \<Longrightarrow> z \<le> hi \<Longrightarrow>
    lo \<le> fst (snd (false_position func iterations iter zm zp fm fp z trips)) \<and>
    fst (snd (false_position func iterations iter zm zp fm fp z trips)) \<le> hi"
proof (induction func iterations iter zm zp fm fp z trips rule: false_position.induct)
  case (1 func iterations iter zm zp fm fp z trips)
  show ?case
  proof (cases "iter < iterations")
    case False
    with "1.prems" show ?thesis
      by (simp add: false_position.simps [of func iterations iter])
  next
    case True
    define z1 where "z1 = (zm * fp - zp * fm) / (fp - fm)"
    define f where "f = func z1"
    have z1: "lo \<le> z1" "z1 \<le> hi"
      using interpolation_between [OF "1.prems"(1-5)] by (simp_all add: z1_def)
    show ?thesis
    proof (cases "\<bar>zm - zp\<bar> < tol \<or> \<bar>f\<bar> < tol")
      case stop: True
      with True z1 show ?thesis
        by (auto simp: false_position.simps [of func iterations iter] Let_def z1_def f_def)
    next
      case go: False
      show ?thesis
      proof (cases "f * fp < 0")
        case neg: True
        then have "fp * f < 0" by (simp add: mult.commute)
        from "1.IH"(1) [OF True z1_def f_def go neg this "1.prems"(4,5) z1 z1]
        show ?thesis
          using True go neg
          by (simp add: false_position.simps [of func iterations iter zm] Let_def z1_def f_def)
      next
        case pos: False
        from go tol_pos have "f \<noteq> 0" by auto
        with pos "1.prems"(1) have "0.5 * fm * f < 0"
          by (auto simp: mult_less_0_iff not_less zero_le_mult_iff)
        from "1.IH"(2) [OF True z1_def f_def go pos this "1.prems"(2,3) z1 z1]
        show ?thesis
          using True go pos
          by (simp add: false_position.simps [of func iterations iter zm] Let_def z1_def f_def)
      qed
    qed
  qed
qed

lemma false_position_phase_between:
  assumes s: "func zm * func zp \<le> 0" and o: "zm \<le> zp"
  shows "zm \<le> fst (snd (false_position_phase func zm zp)) \<and>
    fst (snd (false_position_phase func zm zp)) \<le> zp"
proof (cases "\<bar>zm - zp\<bar> < tol \<or> \<bar>func zm\<bar> + \<bar>func zp\<bar> < 2 * tol")
  case True
  then show ?thesis
    using o by (simp add: false_position_phase_def Let_def false_position.simps)
next
  case False
  then have p: "false_position_phase func zm zp =
      false_position func 25 0 zm zp (func zm) (func zp) (0.5 * (zm + zp)) 0"
    by (simp add: false_position_phase_def Let_def max_iterations_def)
  show ?thesis
  proof (cases "func zm * func zp < 0")
    case True
    from false_position_between [OF True, where lo = zm and hi = zp and z = "0.5 * (zm + zp)"
        and func = func and iterations = 25 and iter = 0 and trips = 0] o
    show ?thesis by (simp add: p)
  next
    case z: False
    with s have "func zm = 0 \<or> func zp = 0" by (auto simp: mult_less_0_iff not_less)
    moreover have "\<not> (func zm = 0 \<and> func zp = 0)" using False tol_pos by auto
    ultimately consider "func zm = 0" "func zp \<noteq> 0" | "func zp = 0" "func zm \<noteq> 0"
      by blast
    then show ?thesis
    proof cases
      case 1
      then show ?thesis
        using o tol_pos by (simp add: p false_position.simps [of func 25 0] Let_def)
    next
      case 2
      then show ?thesis
        using o tol_pos by (simp add: p false_position.simps [of func 25 0] Let_def)
    qed
  qed
qed

text \<open>
  The speed that belongs to the returned velocity components, read as the spatial part
  of the four-velocity, is below 1 whatever the components are.
\<close>

lemma speed_less_1: "speed w < 1"
proof -
  define s where "s = SQR (HydPrim1D.vx w) + SQR (HydPrim1D.vy w) + SQR (HydPrim1D.vz w)"
  have "0 \<le> s" by (simp add: s_def SQR_def)
  then have "sqrt s < sqrt (1 + s)" "0 < sqrt (1 + s)" by simp_all
  then have "sqrt s / sqrt (1 + s) < 1" by simp
  then show ?thesis
    by (simp add: speed_def lorentz_factor_def s_def add.assoc)
qed

lemma srmhd_mu_out:
  "mu_out (SingleC2P_IdealSRMHD u eos s2 b2 rpar w df ef mi) =
    (let u' = u_out (SingleC2P_IdealSRMHD u eos s2 b2 rpar w df ef mi);
         q = MHDCons1D.e u' / MHDCons1D.d u';
         r = sqrt s2 / MHDCons1D.d u';
         b2' = b2 / MHDCons1D.d u';
         rpar' = rpar * (1 / sqrt (MHDCons1D.d u'))
     in fst (snd (false_position_phase
          (\<lambda>z. Equation44 z b2' rpar' r q (MHDCons1D.d u') eos) 0
          (fst (snd (false_position_phase (\<lambda>z. Equation49 z b2' rpar' r q) 0 1))))))"
  unfolding srmhd_u_out
  by (simp add: SingleC2P_IdealSRMHD_def Let_def split_def)

text \<open>
  When the bracket function is not negative at \<open>mu = 1\<close> and the master function does not
  have the same sign at 0 and at the upper end that the first phase returns, the root
  variable after the second phase lies between 0 and 1.  The first condition holds for
  every state after the floors with \<open>b2 \<ge> 0\<close> (lemma \<open>Equation49_1\<close>); the second is a
  condition on the point at which the first phase stops, and is not implied by its
  stopping test.
\<close>

lemma root_variable_range:
  assumes "0 \<le> snd (bracket_values (u_out (SingleC2P_IdealSRMHD u eos s2 b2 rpar w df ef mi))
                      s2 b2 rpar)"
    and "fst (snd (root_bracket_values (u_out (SingleC2P_IdealSRMHD u eos s2 b2 rpar w df ef mi))
                     eos s2 b2 rpar)) *
         snd (snd (root_bracket_values (u_out (SingleC2P_IdealSRMHD u eos s2 b2 rpar w df ef mi))
                     eos s2 b2 rpar)) \<le> 0"
  shows "0 \<le> mu_out (SingleC2P_IdealSRMHD u eos s2 b2 rpar w df ef mi) \<and>
    mu_out (SingleC2P_IdealSRMHD u eos s2 b2 rpar w df ef mi) \<le> 1 \<and>
    speed (w_out (SingleC2P_IdealSRMHD u eos s2 b2 rpar w df ef mi)) < 1"
proof -
  define u' where "u' = u_out (SingleC2P_IdealSRMHD u eos s2 b2 rpar w df ef mi)"
  define q where "q = MHDCons1D.e u' / MHDCons1D.d u'"
  define r where "r = sqrt s2 / MHDCons1D.d u'"
  define b2' where "b2' = b2 / MHDCons1D.d u'"
  define rpar' where "rpar' = rpar * (1 / sqrt (MHDCons1D.d u'))"
  define z1 where "z1 = fst (snd (false_position_phase (\<lambda>z. Equation49 z b2' rpar' r q) 0 1))"
  have "0 \<le> Equation49 1 b2' rpar' r q"
    using assms(1)
    by (simp add: bracket_values_def Let_def u'_def q_def r_def b2'_def rpar'_def)
  then have "Equation49 0 b2' rpar' r q * Equation49 1 b2' rpar' r q \<le> 0"
    by (simp add: Equation49_0)
  from false_position_phase_between [of "\<lambda>z. Equation49 z b2' rpar' r q" 0 1, OF this]
  have z1: "0 \<le> z1" "z1 \<le> 1" by (simp_all add: z1_def)
  have "Equation44 0 b2' rpar' r q (MHDCons1D.d u') eos *
        Equation44 z1 b2' rpar' r q (MHDCons1D.d u') eos \<le> 0"
    using assms(2)
    by (simp add: root_bracket_values_def Let_def split_def u'_def q_def r_def b2'_def
        rpar'_def z1_def)
  from false_position_phase_between
    [of "\<lambda>z. Equation44 z b2' rpar' r q (MHDCons1D.d u') eos" 0 z1, OF this z1(1)]
  have "0 \<le> mu_out (SingleC2P_IdealSRMHD u eos s2 b2 rpar w df ef mi)"
    "mu_out (SingleC2P_IdealSRMHD u eos s2 b2 rpar w df ef mi) \<le> z1"
    by (simp_all add: srmhd_mu_out Let_def u'_def q_def r_def b2'_def rpar'_def z1_def)
  with z1 show ?thesis
    by (simp add: speed_less_1)
qed

text \<open>The cold moving fluid satisfies both conditions: the master function is -12/17 at 0
  and 0 at the upper end 4/5.\<close>

lemma root_variable_range_cold:
  "0 \<le> snd (bracket_values u_cold (9 / 16) 0 0) \<and>
   root_bracket_values u_cold eos_cold (9 / 16) 0 0 = (4 / 5, - 12 / 17, 0) \<and>
   mu_out (SingleC2P_IdealSRMHD u_cold eos_cold (9 / 16) 0 0 w_init False False 0) = 4 / 5"
proof -
  have u: "MHDCons1D.d u_cold = 1" "MHDCons1D.e u_cold = 1 / 4"
    by (simp_all add: u_cold_def)
  have "0 \<le> snd (bracket_values u_cold (9 / 16) 0 0)"
    by (simp add: bracket_values_def Let_def u sqrt_9_16 Equation49_cold)
  moreover have "root_bracket_values u_cold eos_cold (9 / 16) 0 0 = (4 / 5, - 12 / 17, 0)"
    by (simp add: root_bracket_values_def Let_def u sqrt_9_16 phase1_cold Equation44_cold_0
        Equation44_cold_z)
  ultimately show ?thesis
    by (simp add: run_cold)
qed

end
